theory Spec2Isabelle
  imports Complex_Main
begin

section \<open>Python values used by the SVG compiler\<close>

text \<open>
  The exceptions the modelled code can raise. \<open>NotImplemented\<close> stands for
  \<^verbatim>\<open>raise Exception("Not implemented")\<close> of \<^verbatim>\<open>string_to_points\<close>; \<open>LoadError\<close> for
  whatever \<^verbatim>\<open>np.load\<close> raises on a file that does not hold an array. \<open>NonFinite\<close> is
  no exception of the code: it marks the border of the model, a run in which the code goes
  on to do arithmetic with an infinity or a NaN (see \<open>finite_value\<close> below).
\<close>

datatype error =
    NotImplemented
  | ValueError
  | TypeError
  | IndexError
  | KeyError
  | OSError
  | LoadError
  | NonFinite

text \<open>
  A Python float is a finite number, an infinity or a NaN. The finite ones are modelled as
  real numbers, and every operation of the code on them (\<open>+\<close>, \<open>-\<close>, \<open>*\<close>) as the exact
  one, so rounding and overflow are outside the model. The geometry is over the finite
  floats only: where the code puts a float into an array of points, the model goes on with
  its real value, or stops with \<open>NonFinite\<close>. A point is a row of a numpy array of shape
  \<open>(n, 3)\<close> (\<^verbatim>\<open>self.dim\<close> is 3).
\<close>

datatype pyfloat = Finite real | PosInf | NegInf | NaN

definition finite_value :: "pyfloat \<Rightarrow> error + real" where
  "finite_value x = (case x of Finite r \<Rightarrow> Inr r | _ \<Rightarrow> Inl NonFinite)"

type_synonym point = "real \<times> real \<times> real"

definition ORIGIN :: point where "ORIGIN = (0, 0, 0)"
definition RIGHT :: point where "RIGHT = (1, 0, 0)"
definition UP :: point where "UP = (0, 1, 0)"
definition DOWN :: point where "DOWN = (0, -1, 0)"

fun padd :: "point \<Rightarrow> point \<Rightarrow> point" where
  "padd (x, y, z) (u, v, w) = (x + u, y + v, z + w)"

fun psub :: "point \<Rightarrow> point \<Rightarrow> point" where
  "psub (x, y, z) (u, v, w) = (x - u, y - v, z - w)"

fun pscale :: "real \<Rightarrow> point \<Rightarrow> point" where
  "pscale k (x, y, z) = (k * x, k * y, k * z)"

subsection \<open>Strings\<close>

definition digits :: string where "digits = ''0123456789''"

definition isdigit :: "char \<Rightarrow> bool" where
  "isdigit c = (c \<in> set digits)"

definition ascii_lowercase :: string where
  "ascii_lowercase = ''abcdefghijklmnopqrstuvwxyz''"

definition ascii_uppercase :: string where
  "ascii_uppercase = ''ABCDEFGHIJKLMNOPQRSTUVWXYZ''"

definition islower :: "char \<Rightarrow> bool" where
  "islower c = (c \<in> set ascii_lowercase)"

definition isupper :: "char \<Rightarrow> bool" where
  "isupper c = (c \<in> set ascii_uppercase)"

text \<open>
  \<^verbatim>\<open>c.upper()\<close> and \<^verbatim>\<open>c.lower()\<close> on one character: the letters of the two ASCII
  alphabets correspond by position, every other character stays.
\<close>

definition upper :: "char \<Rightarrow> char" where
  "upper c = (case map_of (zip ascii_lowercase ascii_uppercase) c of None \<Rightarrow> c | Some u \<Rightarrow> u)"

definition lower :: "char \<Rightarrow> char" where
  "lower c = (case map_of (zip ascii_uppercase ascii_lowercase) c of None \<Rightarrow> c | Some l \<Rightarrow> l)"

text \<open>\<^verbatim>\<open>s.replace(old, new)\<close>: every non-overlapping occurrence, from the left.\<close>

fun replace :: "string \<Rightarrow> string \<Rightarrow> string \<Rightarrow> string" where
  "replace [] old new = (if old = [] then new else [])"
| "replace (c # cs) old new =
     (if old = [] then new @ c # replace cs old new
      else if take (length old) (c # cs) = old
        then new @ replace (drop (length old - 1) cs) old new
      else c # replace cs old new)"

text \<open>\<^verbatim>\<open>re.split("[ ,]", s)\<close>: the pieces between separators, empty ones included.\<close>

fun re_split :: "(char \<Rightarrow> bool) \<Rightarrow> string \<Rightarrow> string list" where
  "re_split sep [] = [[]]"
| "re_split sep (c # cs) =
     (if sep c then [] # re_split sep cs
      else (case re_split sep cs of
              [] \<Rightarrow> [[c]]
            | w # ws \<Rightarrow> (c # w) # ws))"

subsection \<open>\<^verbatim>\<open>float(s)\<close>\<close>

text \<open>
  Strings are lists of characters with code points below 256. \<^verbatim>\<open>str.isspace\<close> on them,
  and \<^verbatim>\<open>s.strip()\<close>.
\<close>

definition isspace :: "char \<Rightarrow> bool" where
  "isspace c =
     (let n = (of_char c :: nat)
      in (9 \<le> n \<and> n \<le> 13) \<or> (28 \<le> n \<and> n \<le> 32) \<or> n = 133 \<or> n = 160)"

definition strip :: "string \<Rightarrow> string" where
  "strip s = rev (dropWhile isspace (rev (dropWhile isspace s)))"

text \<open>
  What \<^verbatim>\<open>float\<close> accepts, as CPython parses it. An underscore may stand between two
  digits and nowhere else; the underscores are then taken out. Whitespace around the number
  is dropped: tab to carriage return and the space, and the two spaces U+0085 and U+00A0
  (the separators U+001C to U+001F are whitespace for \<^verbatim>\<open>strip\<close> but not here). What is
  left is a sign and one of the words \<^verbatim>\<open>inf\<close>, \<^verbatim>\<open>infinity\<close>, \<^verbatim>\<open>nan\<close> in any case, or
  a decimal literal: a sign, digits with an optional fraction (or a fraction alone), an
  optional exponent. Anything else is a \<open>ValueError\<close>.
\<close>

definition float_isspace :: "char \<Rightarrow> bool" where
  "float_isspace c =
     (let n = (of_char c :: nat) in (9 \<le> n \<and> n \<le> 13) \<or> n = 32 \<or> n = 133 \<or> n = 160)"

definition float_strip :: "string \<Rightarrow> string" where
  "float_strip s = rev (dropWhile float_isspace (rev (dropWhile float_isspace s)))"

text \<open>The scan for misplaced underscores; the first argument is the character before.\<close>

fun underscores_from :: "char \<Rightarrow> string \<Rightarrow> bool" where
  "underscores_from prev [] = (prev \<noteq> CHR ''_'')"
| "underscores_from prev (c # cs) =
     ((if c = CHR ''_'' then isdigit prev
       else if prev = CHR ''_'' then isdigit c
       else True)
      \<and> underscores_from c cs)"

definition digit_value :: "char \<Rightarrow> nat" where
  "digit_value c = of_char c - 48"

definition digits_value :: "string \<Rightarrow> nat" where
  "digits_value ds = foldl (\<lambda>a c. 10 * a + digit_value c) 0 ds"

definition split_sign :: "string \<Rightarrow> bool \<times> string" where
  "split_sign s =
     (case s of
        [] \<Rightarrow> (False, [])
      | c # cs \<Rightarrow> if c = CHR ''-'' then (True, cs)
                  else if c = CHR ''+'' then (False, cs)
                  else (False, s))"

definition float_exponent :: "string \<Rightarrow> error + int" where
  "float_exponent r =
     (case r of
        [] \<Rightarrow> Inr 0
      | e # r' \<Rightarrow>
          if e = CHR ''e'' \<or> e = CHR ''E'' then
            (let (eneg, ds) = split_sign r' in
             if ds \<noteq> [] \<and> list_all isdigit ds
             then Inr (if eneg then - int (digits_value ds) else int (digits_value ds))
             else Inl ValueError)
          else Inl ValueError)"

text \<open>The decimal literal behind the sign.\<close>

definition float_decimal :: "bool \<Rightarrow> string \<Rightarrow> error + pyfloat" where
  "float_decimal neg s =
     (let ip = takeWhile isdigit s;
          r = dropWhile isdigit s;
          has_dot = (r \<noteq> [] \<and> hd r = CHR ''.'');
          fp = (if has_dot then takeWhile isdigit (tl r) else []);
          r' = (if has_dot then dropWhile isdigit (tl r) else r)
      in if ip = [] \<and> fp = [] then Inl ValueError
         else (case float_exponent r' of
                 Inl e \<Rightarrow> Inl e
               | Inr ex \<Rightarrow>
                   (let m = real (digits_value ip) + real (digits_value fp) / 10 ^ length fp;
                        v = (if 0 \<le> ex then m * 10 ^ nat ex else m / 10 ^ nat (- ex))
                    in Inr (Finite (if neg then - v else v)))))"

definition float :: "string \<Rightarrow> error + pyfloat" where
  "float s0 =
     (if \<not> underscores_from (CHR 0x00) s0 then Inl ValueError
      else
        (let (neg, s) = split_sign (float_strip (filter (\<lambda>c. c \<noteq> CHR ''_'') s0));
             word = map lower s
         in if word = ''inf'' \<or> word = ''infinity'' then Inr (if neg then NegInf else PosInf)
            else if word = ''nan'' then Inr NaN
            else float_decimal neg s))"

text \<open>A list comprehension \<^verbatim>\<open>[f(s) for s in xs]\<close> stops at the first element that raises.\<close>

fun map_result :: "('a \<Rightarrow> error + 'b) \<Rightarrow> 'a list \<Rightarrow> error + 'b list" where
  "map_result f [] = Inr []"
| "map_result f (x # xs) =
     (case f x of
        Inl e \<Rightarrow> Inl e
      | Inr y \<Rightarrow> (case map_result f xs of Inl e \<Rightarrow> Inl e | Inr ys \<Rightarrow> Inr (y # ys)))"

subsection \<open>\<^verbatim>\<open>string_to_numbers\<close>\<close>

definition string_to_numbers :: "string \<Rightarrow> error + pyfloat list" where
  "string_to_numbers num_string =
     (let num_string = replace num_string ''-'' '',-'';
          num_string = replace num_string ''e,-'' ''e-''
      in map_result float
           (filter (\<lambda>s. s \<noteq> []) (re_split (\<lambda>c. c = CHR '' '' \<or> c = CHR '','') num_string)))"

section \<open>The geometry of a \<^verbatim>\<open>VMobject\<close>\<close>

text \<open>
  Modelled from the spec: the drawing methods of \<^verbatim>\<open>VMobject\<close> (\<^verbatim>\<open>start_new_path\<close>,
  \<^verbatim>\<open>add_line_to\<close>, the four curve methods, \<^verbatim>\<open>close_path\<close>, \<^verbatim>\<open>get_last_point\<close>,
  \<^verbatim>\<open>get_points\<close>, \<^verbatim>\<open>set_points\<close>) and \<^verbatim>\<open>Mobject.stretch\<close> live in
  \<^verbatim>\<open>vectorized_mobject.py\<close> and \<^verbatim>\<open>mobject.py\<close>, which are not among the sources. The
  points of a \<^verbatim>\<open>VMobject\<close> are represented by the sequence of drawing calls that built
  them, each with the points it was given. The current point is, in the spec's words, the
  endpoint of the previously emitted segment, or the most recent explicit move for a fresh
  subpath; closing a subpath ends at its start point. A segment starts at the current point,
  so every drawing call but a move fails when nothing has been drawn yet.
\<close>

datatype draw_call =
    StartNewPath point
  | AddLineTo point
  | AddCubicBezierCurveTo point point point
  | AddSmoothCubicCurveTo point point
  | AddQuadraticBezierCurveTo point point
  | AddSmoothCurveTo point
  | ClosePath

record vmobject =
  path_string :: string
  should_subdivide_sharp_curves :: bool
  should_remove_null_curves :: bool
  relative_point :: point
  points :: "draw_call list"

text \<open>The pair (start of the current subpath, current point) after one more call.\<close>

fun advance :: "point option \<times> point option \<Rightarrow> draw_call \<Rightarrow> point option \<times> point option" where
  "advance (s, c) (StartNewPath p) = (Some p, Some p)"
| "advance (s, c) (AddLineTo p) = (s, Some p)"
| "advance (s, c) (AddCubicBezierCurveTo h1 h2 p) = (s, Some p)"
| "advance (s, c) (AddSmoothCubicCurveTo h p) = (s, Some p)"
| "advance (s, c) (AddQuadraticBezierCurveTo h p) = (s, Some p)"
| "advance (s, c) (AddSmoothCurveTo p) = (s, Some p)"
| "advance (s, c) ClosePath = (s, s)"

definition cursor :: "draw_call list \<Rightarrow> point option \<times> point option" where
  "cursor cs = foldl advance (None, None) cs"

definition get_last_point :: "vmobject \<Rightarrow> error + point" where
  "get_last_point self =
     (case snd (cursor (points self)) of
        None \<Rightarrow> Inl IndexError
      | Some p \<Rightarrow> Inr p)"

definition get_points :: "vmobject \<Rightarrow> draw_call list" where
  "get_points self = points self"

definition set_points :: "draw_call list \<Rightarrow> vmobject \<Rightarrow> vmobject" where
  "set_points ps self = self\<lparr>points := ps\<rparr>"

definition start_new_path :: "point \<Rightarrow> vmobject \<Rightarrow> error + vmobject" where
  "start_new_path p self = Inr (self\<lparr>points := points self @ [StartNewPath p]\<rparr>)"

definition draw :: "draw_call \<Rightarrow> vmobject \<Rightarrow> error + vmobject" where
  "draw c self =
     (case snd (cursor (points self)) of
        None \<Rightarrow> Inl IndexError
      | Some _ \<Rightarrow> Inr (self\<lparr>points := points self @ [c]\<rparr>))"

definition add_line_to :: "point \<Rightarrow> vmobject \<Rightarrow> error + vmobject" where
  "add_line_to p = draw (AddLineTo p)"

definition add_cubic_bezier_curve_to ::
    "point \<Rightarrow> point \<Rightarrow> point \<Rightarrow> vmobject \<Rightarrow> error + vmobject" where
  "add_cubic_bezier_curve_to h1 h2 p = draw (AddCubicBezierCurveTo h1 h2 p)"

definition add_smooth_cubic_curve_to :: "point \<Rightarrow> point \<Rightarrow> vmobject \<Rightarrow> error + vmobject" where
  "add_smooth_cubic_curve_to h p = draw (AddSmoothCubicCurveTo h p)"

definition add_quadratic_bezier_curve_to ::
    "point \<Rightarrow> point \<Rightarrow> vmobject \<Rightarrow> error + vmobject" where
  "add_quadratic_bezier_curve_to h p = draw (AddQuadraticBezierCurveTo h p)"

definition add_smooth_curve_to :: "point \<Rightarrow> vmobject \<Rightarrow> error + vmobject" where
  "add_smooth_curve_to p = draw (AddSmoothCurveTo p)"

definition close_path :: "vmobject \<Rightarrow> error + vmobject" where
  "close_path = draw ClosePath"

text \<open>
  \<^verbatim>\<open>self.stretch(-1, 1, about_point=ORIGIN)\<close>: every point is mirrored across the X axis.
\<close>

fun flip_y :: "point \<Rightarrow> point" where
  "flip_y (x, y, z) = (x, - y, z)"

fun map_call :: "(point \<Rightarrow> point) \<Rightarrow> draw_call \<Rightarrow> draw_call" where
  "map_call f (StartNewPath p) = StartNewPath (f p)"
| "map_call f (AddLineTo p) = AddLineTo (f p)"
| "map_call f (AddCubicBezierCurveTo h1 h2 p) = AddCubicBezierCurveTo (f h1) (f h2) (f p)"
| "map_call f (AddSmoothCubicCurveTo h p) = AddSmoothCubicCurveTo (f h) (f p)"
| "map_call f (AddQuadraticBezierCurveTo h p) = AddQuadraticBezierCurveTo (f h) (f p)"
| "map_call f (AddSmoothCurveTo p) = AddSmoothCurveTo (f p)"
| "map_call f ClosePath = ClosePath"

definition stretch_y :: "vmobject \<Rightarrow> vmobject" where
  "stretch_y self = self\<lparr>points := map (map_call flip_y) (points self)\<rparr>"

section \<open>\<^verbatim>\<open>VMobjectFromSVGPathstring\<close>: the path compiler\<close>

text \<open>
  \<^verbatim>\<open>func(*new_points[:n_points])\<close> applies a method to the rows of the slice; a slice
  shorter than the method's arity is a \<open>TypeError\<close> (missing positional argument).
\<close>

type_synonym drawing_method = "point list \<Rightarrow> vmobject \<Rightarrow> error + vmobject"

definition call0 :: "(vmobject \<Rightarrow> error + vmobject) \<Rightarrow> drawing_method" where
  "call0 f args self = (case args of [] \<Rightarrow> f self | _ \<Rightarrow> Inl TypeError)"

definition call1 :: "(point \<Rightarrow> vmobject \<Rightarrow> error + vmobject) \<Rightarrow> drawing_method" where
  "call1 f args self = (case args of [p] \<Rightarrow> f p self | _ \<Rightarrow> Inl TypeError)"

definition call2 :: "(point \<Rightarrow> point \<Rightarrow> vmobject \<Rightarrow> error + vmobject) \<Rightarrow> drawing_method" where
  "call2 f args self = (case args of [p, q] \<Rightarrow> f p q self | _ \<Rightarrow> Inl TypeError)"

definition call3 ::
    "(point \<Rightarrow> point \<Rightarrow> point \<Rightarrow> vmobject \<Rightarrow> error + vmobject) \<Rightarrow> drawing_method" where
  "call3 f args self = (case args of [p, q, r] \<Rightarrow> f p q r self | _ \<Rightarrow> Inl TypeError)"

definition get_command_to_function_map :: "(char \<times> drawing_method \<times> nat) list" where
  "get_command_to_function_map =
     [(CHR ''M'', call1 start_new_path, 1),
      (CHR ''L'', call1 add_line_to, 1),
      (CHR ''H'', call1 add_line_to, 1),
      (CHR ''V'', call1 add_line_to, 1),
      (CHR ''C'', call3 add_cubic_bezier_curve_to, 3),
      (CHR ''S'', call2 add_smooth_cubic_curve_to, 2),
      (CHR ''Q'', call2 add_quadratic_bezier_curve_to, 2),
      (CHR ''T'', call1 add_smooth_curve_to, 1),
      (CHR ''A'', call2 add_quadratic_bezier_curve_to, 2),
      (CHR ''Z'', call0 close_path, 0)]"

definition command_to_function :: "char \<Rightarrow> error + drawing_method \<times> nat" where
  "command_to_function command =
     (case map_of get_command_to_function_map (upper command) of
        None \<Rightarrow> Inl KeyError
      | Some fn \<Rightarrow> Inr fn)"

definition all_commands :: "char list" where
  "all_commands =
     map fst get_command_to_function_map @ map (lower \<circ> fst) get_command_to_function_map"

definition get_commands_and_coord_strings :: "string \<Rightarrow> (char \<times> string) list" where
  "get_commands_and_coord_strings s =
     zip (filter (\<lambda>c. c \<in> set all_commands) s)
         (tl (re_split (\<lambda>c. c \<in> set all_commands) s))"

fun pairs :: "real list \<Rightarrow> (real \<times> real) list" where
  "pairs (a # b # rest) = (a, b) # pairs rest"
| "pairs _ = []"

text \<open>
  \<^verbatim>\<open>string_to_points\<close>. The numbers are parsed first; for \<^verbatim>\<open>H\<close> and \<^verbatim>\<open>V\<close> they fill
  one column of an array of zeros, the other column is the relative point's only for the
  upper-case letter; \<^verbatim>\<open>A\<close> raises; for every other letter the numbers are reshaped into
  pairs, which an odd count refuses.
\<close>

definition string_to_points :: "char \<Rightarrow> string \<Rightarrow> vmobject \<Rightarrow> error + point list" where
  "string_to_points command coord_string self =
     (case string_to_numbers coord_string of
        Inl e \<Rightarrow> Inl e
      | Inr numbers \<Rightarrow>
          if upper command = CHR ''H'' \<or> upper command = CHR ''V'' then
            (case map_result finite_value numbers of
               Inl e \<Rightarrow> Inl e
             | Inr ns \<Rightarrow>
                 (let (rx, ry, rz) = relative_point self in
                  if upper command = CHR ''H''
                  then Inr (map (\<lambda>n. (n, if isupper command then ry else 0, 0)) ns)
                  else Inr (map (\<lambda>n. (if isupper command then rx else 0, n, 0)) ns)))
          else if upper command = CHR ''A'' then Inl NotImplemented
          else if odd (length numbers) then Inl ValueError
          else
            (case map_result finite_value numbers of
               Inl e \<Rightarrow> Inl e
             | Inr ns \<Rightarrow> Inr (map (\<lambda>(x, y). (x, y, 0)) (pairs ns))))"

text \<open>
  \<^verbatim>\<open>handle_command\<close> calls itself on the leftover points. Nothing in it bounds the
  recursion, so it is a partial function: \<open>None\<close> is the run that never returns.
\<close>

partial_function (option) handle_command ::
    "char \<Rightarrow> point list \<Rightarrow> vmobject \<Rightarrow> (error + vmobject) option" where
  "handle_command command new_points self =
     (let new_points' =
            (if islower command then map (\<lambda>p. padd p (relative_point self)) new_points
             else new_points)
      in case command_to_function command of
           Inl e \<Rightarrow> Some (Inl e)
         | Inr (func, n_points) \<Rightarrow>
             (case func (take n_points new_points') self of
                Inl e \<Rightarrow> Some (Inl e)
              | Inr self' \<Rightarrow>
                  (let leftover_points = drop n_points new_points' in
                   if length leftover_points > 0 then
                     (let command' = (if upper command = CHR ''M'' then CHR ''l'' else command) in
                      if islower command' then
                        (case get_last_point self' of
                           Inl e \<Rightarrow> Some (Inl e)
                         | Inr p \<Rightarrow>
                             handle_command command'
                               (map (\<lambda>q. psub q (relative_point self')) leftover_points)
                               (self'\<lparr>relative_point := p\<rparr>))
                      else handle_command command' leftover_points self')
                   else
                     (case get_last_point self' of
                        Inl e \<Rightarrow> Some (Inl e)
                      | Inr p \<Rightarrow> Some (Inr (self'\<lparr>relative_point := p\<rparr>))))))"

declare handle_command.simps [code]

text \<open>The loop of \<^verbatim>\<open>init_points\<close> over the commands of the path string.\<close>

fun handle_commands :: "(char \<times> string) list \<Rightarrow> vmobject \<Rightarrow> (error + vmobject) option" where
  "handle_commands [] self = Some (Inr self)"
| "handle_commands ((command, coord_string) # rest) self =
     (case string_to_points command coord_string self of
        Inl e \<Rightarrow> Some (Inl e)
      | Inr new_points \<Rightarrow>
          (case handle_command command new_points self of
             None \<Rightarrow> None
           | Some (Inl e) \<Rightarrow> Some (Inl e)
           | Some (Inr self') \<Rightarrow> handle_commands rest self'))"

subsection \<open>The cache on disk and \<^verbatim>\<open>init_points\<close>\<close>

text \<open>
  The file system as \<^verbatim>\<open>init_points\<close> sees it: a file either holds an array written by
  \<^verbatim>\<open>np.save\<close> or anything else (a truncated file, a directory), which \<^verbatim>\<open>np.load\<close>
  refuses; a write fails with an \<open>OSError\<close> where the path is not writable.
\<close>

datatype disk_file = NpyFile "draw_call list" | OtherFile

record filesystem =
  files :: "string \<Rightarrow> disk_file option"
  writable :: "string \<Rightarrow> bool"

definition os_path_exists :: "filesystem \<Rightarrow> string \<Rightarrow> bool" where
  "os_path_exists fs p = (files fs p \<noteq> None)"

definition os_path_join :: "string \<Rightarrow> string \<Rightarrow> string" where
  "os_path_join d n =
     (if n \<noteq> [] \<and> hd n = CHR ''/'' then n
      else if d = [] \<or> last d = CHR ''/'' then d @ n
      else d @ ''/'' @ n)"

definition np_load :: "filesystem \<Rightarrow> string \<Rightarrow> error + draw_call list" where
  "np_load fs p =
     (case files fs p of
        None \<Rightarrow> Inl OSError
      | Some (NpyFile a) \<Rightarrow> Inr a
      | Some OtherFile \<Rightarrow> Inl LoadError)"

definition np_save :: "filesystem \<Rightarrow> string \<Rightarrow> draw_call list \<Rightarrow> error + filesystem" where
  "np_save fs p a =
     (if writable fs p then Inr (fs\<lparr>files := (files fs)(p \<mapsto> NpyFile a)\<rparr>)
      else Inl OSError)"

text \<open>
  What \<^verbatim>\<open>init_points\<close> takes from outside this file: the SHA-256 hex digest of
  \<^verbatim>\<open>hashlib\<close>, the data directory of \<^verbatim>\<open>get_mobject_data_dir\<close>, and the two optional
  passes of \<^verbatim>\<open>VMobject\<close> over the finished points.
\<close>

record externals =
  sha256_hexdigest :: "string \<Rightarrow> string"
  get_mobject_data_dir :: string
  subdivide_sharp_curves :: "draw_call list \<Rightarrow> draw_call list"
  get_points_without_null_curves :: "draw_call list \<Rightarrow> draw_call list"

definition path_hash :: "externals \<Rightarrow> string \<Rightarrow> string" where
  "path_hash ext s = take 16 (sha256_hexdigest ext s)"

definition points_filepath :: "externals \<Rightarrow> string \<Rightarrow> string" where
  "points_filepath ext s =
     os_path_join (get_mobject_data_dir ext) (path_hash ext s @ ''_points.npy'')"

definition tris_filepath :: "externals \<Rightarrow> string \<Rightarrow> string" where
  "tris_filepath ext s =
     os_path_join (get_mobject_data_dir ext) (path_hash ext s @ ''_tris.npy'')"

definition init_points ::
    "externals \<Rightarrow> filesystem \<Rightarrow> vmobject \<Rightarrow> (error + vmobject \<times> filesystem) option" where
  "init_points ext fs self =
     (if os_path_exists fs (points_filepath ext (path_string self))
         \<and> os_path_exists fs (tris_filepath ext (path_string self))
      then
        (case np_load fs (points_filepath ext (path_string self)) of
           Inl e \<Rightarrow> Some (Inl e)
         | Inr a \<Rightarrow> Some (Inr (set_points a self, fs)))
      else
        (case handle_commands (get_commands_and_coord_strings (path_string self))
                (self\<lparr>relative_point := ORIGIN\<rparr>) of
           None \<Rightarrow> None
         | Some (Inl e) \<Rightarrow> Some (Inl e)
         | Some (Inr self1) \<Rightarrow>
             (let self2 = (if should_subdivide_sharp_curves self1
                           then set_points (subdivide_sharp_curves ext (get_points self1)) self1
                           else self1);
                  self3 = (if should_remove_null_curves self2
                           then set_points (get_points_without_null_curves ext (get_points self2)) self2
                           else self2);
                  self4 = stretch_y self3
              in case np_save fs (points_filepath ext (path_string self)) (get_points self4) of
                   Inl e \<Rightarrow> Some (Inl e)
                 | Inr fs' \<Rightarrow> Some (Inr (self4, fs')))))"

section \<open>\<^verbatim>\<open>SVGMobject\<close>: elements, references, attributes\<close>

text \<open>A \<^verbatim>\<open>minidom\<close> element: tag name, attributes, child nodes.\<close>

datatype element =
  Element (tagName: string) (attributes: "(string \<times> string) list") (childNodes: "element list")

definition getAttribute :: "element \<Rightarrow> string \<Rightarrow> string" where
  "getAttribute e k = (case map_of (attributes e) k of None \<Rightarrow> [] | Some v \<Rightarrow> v)"

definition hasAttribute :: "element \<Rightarrow> string \<Rightarrow> bool" where
  "hasAttribute e k = (map_of (attributes e) k \<noteq> None)"

type_synonym style = "string \<Rightarrow> string option"

record svgmobject =
  file_name :: string
  def_map :: "string \<Rightarrow> (style \<times> element) option"
  warnings :: "string list"

text \<open>
  \<^verbatim>\<open>use_to_mobjects\<close> ends in a call of \<^verbatim>\<open>self.get_mobjects_from\<close>, the walker that
  called it; the walker is the first argument here. \<^verbatim>\<open>style.update(def_style)\<close> on a
  copy of the local style is the map \<open>local_style ++ def_style\<close>.
\<close>

definition use_to_mobjects ::
    "(element \<Rightarrow> style \<Rightarrow> svgmobject \<Rightarrow> error + 'm list \<times> svgmobject) \<Rightarrow>
     element \<Rightarrow> style \<Rightarrow> svgmobject \<Rightarrow> error + 'm list \<times> svgmobject" where
  "use_to_mobjects get_mobjects_from use_element local_style self =
     (let ref = drop 1 (getAttribute use_element ''xlink:href'') in
      case def_map self ref of
        None \<Rightarrow>
          (let warning_text =
                 file_name self @ '' contains a reference to id #'' @ ref
                   @ '', which is not recognized''
           in Inr ([], self\<lparr>warnings := warnings self @ [warning_text]\<rparr>))
      | Some (def_style, def_element) \<Rightarrow>
          get_mobjects_from def_element (local_style ++ def_style) self)"

text \<open>
  \<^verbatim>\<open>attribute_to_float\<close>. Every caller computes with the result; what is left of the
  text after the filter has no letter, so the float is never an infinity or a NaN.
\<close>

definition attribute_to_float :: "string \<Rightarrow> error + real" where
  "attribute_to_float attr =
     (case float (filter (\<lambda>char. char \<in> set (digits @ ''.'' @ ''-'')) attr) of
        Inl e \<Rightarrow> Inl e
      | Inr x \<Rightarrow> finite_value x)"

text \<open>
  \<^verbatim>\<open>rect_to_mobject\<close>. The stroke width handed on is the integer 0 or the attribute's
  text as it stands. Modelled from the spec: \<^verbatim>\<open>Rectangle\<close>, \<^verbatim>\<open>RoundedRectangle\<close> and
  \<^verbatim>\<open>parse_style\<close> are not among the sources; the result records the arguments of the
  constructor, the style unparsed, and the centre after the shift that puts the top-left
  corner of the centre-anchored shape on the origin.
\<close>

datatype stroke_width = StrokeZero | StrokeText string

datatype shape = Rectangle real real | RoundedRectangle real real pyfloat

record rect_mobject =
  rect_shape :: shape
  rect_stroke_width :: stroke_width
  rect_style :: style
  rect_center :: point

definition rect_to_mobject :: "element \<Rightarrow> style \<Rightarrow> error + rect_mobject" where
  "rect_to_mobject rect_element style =
     (let stroke_width = getAttribute rect_element ''stroke-width'';
          corner_radius = getAttribute rect_element ''rx'';
          stroke_width' = (if stroke_width \<in> set [[], ''none'', ''0''] then StrokeZero
                           else StrokeText stroke_width)
      in case (if corner_radius \<in> set [[], ''0'', ''none''] then Inr (Finite 0)
               else float corner_radius) of
           Inl e \<Rightarrow> Inl e
         | Inr corner_radius' \<Rightarrow>
             (case attribute_to_float (getAttribute rect_element ''width'') of
                Inl e \<Rightarrow> Inl e
              | Inr w \<Rightarrow>
                  (case attribute_to_float (getAttribute rect_element ''height'') of
                     Inl e \<Rightarrow> Inl e
                   | Inr h \<Rightarrow>
                       Inr \<lparr>rect_shape = (if corner_radius' = Finite 0 then Rectangle w h
                                           else RoundedRectangle w h corner_radius'),
                            rect_stroke_width = stroke_width',
                            rect_style = style,
                            rect_center = (w / 2, - (h / 2), 0)\<rparr>)))"

subsection \<open>\<^verbatim>\<open>handle_transforms\<close>\<close>

text \<open>
  \<^verbatim>\<open>re.findall\<close> for a pattern that never matches the empty string: \<open>m\<close> gives the text
  matched at the head of its argument, if any; the scan goes on behind the match, or one
  character further on where nothing matches. The counter is the number of characters of
  the last match still to be passed over.
\<close>

fun findall_from :: "(string \<Rightarrow> string option) \<Rightarrow> nat \<Rightarrow> string \<Rightarrow> string list" where
  "findall_from m k [] = []"
| "findall_from m k (c # cs) =
     (if k > 0 then findall_from m (k - 1) cs
      else (case m (c # cs) of
              None \<Rightarrow> findall_from m 0 cs
            | Some x \<Rightarrow> x # findall_from m (length x - 1) cs))"

definition re_findall :: "(string \<Rightarrow> string option) \<Rightarrow> string \<Rightarrow> string list" where
  "re_findall m s = findall_from m 0 s"

definition transform_names :: "string list" where
  "transform_names = [''matrix'', ''translate'', ''scale'', ''rotate'', ''skewX'', ''skewY'']"

text \<open>The alternatives \<^verbatim>\<open>name[^)]*\)\<close> of \<^verbatim>\<open>transform_regex\<close>, tried in order.\<close>

fun match_transform :: "string list \<Rightarrow> string \<Rightarrow> string option" where
  "match_transform [] s = None"
| "match_transform (n # ns) s =
     (if take (length n) s = n \<and> CHR '')'' \<in> set (drop (length n) s)
      then Some (n @ takeWhile (\<lambda>c. c \<noteq> CHR '')'') (drop (length n) s) @ '')'')
      else match_transform ns s)"

text \<open>
  \<^verbatim>\<open>number_regex\<close>: \<^verbatim>\<open>[-+]?(?:\d+(?:\.\d*)?|\.\d+)(?:[eE][-+]?\d+)?\<close>, every part
  greedy.
\<close>

definition match_exponent :: "string \<Rightarrow> string" where
  "match_exponent r =
     (case r of
        [] \<Rightarrow> []
      | e # r' \<Rightarrow>
          if e = CHR ''e'' \<or> e = CHR ''E'' then
            (let sg = (if r' \<noteq> [] \<and> (hd r' = CHR ''-'' \<or> hd r' = CHR ''+'') then [hd r'] else []);
                 ds = takeWhile isdigit (drop (length sg) r')
             in if ds = [] then [] else e # sg @ ds)
          else [])"

definition match_number :: "string \<Rightarrow> string option" where
  "match_number s =
     (let sg = (if s \<noteq> [] \<and> (hd s = CHR ''-'' \<or> hd s = CHR ''+'') then [hd s] else []);
          r = drop (length sg) s;
          ip = takeWhile isdigit r;
          r1 = dropWhile isdigit r
      in if ip \<noteq> [] then
           (let fr = (if r1 \<noteq> [] \<and> hd r1 = CHR ''.''
                      then CHR ''.'' # takeWhile isdigit (tl r1) else []);
                mant = sg @ ip @ fr
            in Some (mant @ match_exponent (drop (length mant) s)))
         else if r \<noteq> [] \<and> hd r = CHR ''.'' \<and> takeWhile isdigit (tl r) \<noteq> [] then
           (let mant = sg @ CHR ''.'' # takeWhile isdigit (tl r)
            in Some (mant @ match_exponent (drop (length mant) s)))
         else None)"

text \<open>
  Modelled from the spec: \<^verbatim>\<open>Mobject.shift\<close>, \<^verbatim>\<open>Mobject.scale\<close> and
  \<^verbatim>\<open>family_members_with_points\<close> are not among the sources. The group a transform is
  applied to is the list of the point arrays of its family members; a shift adds a vector to
  every point, a scale about the origin multiplies every point componentwise.
\<close>

type_synonym family = "point list list"

definition shift :: "point \<Rightarrow> family \<Rightarrow> family" where
  "shift v mobject = map (map (\<lambda>p. padd p v)) mobject"

definition scale :: "point \<Rightarrow> family \<Rightarrow> family" where
  "scale k mobject =
     map (map (\<lambda>(px, py, pz). case k of (kx, ky, kz) \<Rightarrow> (px * kx, py * ky, pz * kz))) mobject"

text \<open>A 3 by 3 matrix by rows, and \<^verbatim>\<open>np.dot(row, matrix)\<close>.\<close>

type_synonym matrix = "point \<times> point \<times> point"

definition identity :: matrix where
  "identity = ((1, 0, 0), (0, 1, 0), (0, 0, 1))"

fun set_block :: "real \<Rightarrow> real \<Rightarrow> real \<Rightarrow> real \<Rightarrow> matrix \<Rightarrow> matrix" where
  "set_block a b c d ((m00, m01, m02), (m10, m11, m12), r2) = ((a, b, m02), (c, d, m12), r2)"

fun negate_row1 :: "matrix \<Rightarrow> matrix" where
  "negate_row1 (r0, (m10, m11, m12), r2) = (r0, (- m10, - m11, - m12), r2)"

fun negate_col1 :: "matrix \<Rightarrow> matrix" where
  "negate_col1 ((m00, m01, m02), (m10, m11, m12), (m20, m21, m22)) =
     ((m00, - m01, m02), (m10, - m11, m12), (m20, - m21, m22))"

fun dot :: "point \<Rightarrow> matrix \<Rightarrow> point" where
  "dot (px, py, pz) ((m00, m01, m02), (m10, m11, m12), (m20, m21, m22)) =
     (px * m00 + py * m10 + pz * m20,
      px * m01 + py * m11 + pz * m21,
      px * m02 + py * m12 + pz * m22)"

text \<open>
  The body of the loop over the transforms, for one operation. \<^verbatim>\<open>reshape([3, 2])\<close> needs
  six numbers. In \<^verbatim>\<open>translate\<close> with other than two numbers, \<^verbatim>\<open>x\<close> is the whole list, and
  \<^verbatim>\<open>x * RIGHT\<close> multiplies it with a vector of three: lists of one and of three numbers
  broadcast, any other length is a \<open>ValueError\<close>.
\<close>

definition transform_op :: "string \<Rightarrow> real list \<Rightarrow> family \<Rightarrow> error + family" where
  "transform_op op_name op_args mobject =
     (if op_name = ''matrix'' then
        (case op_args of
           [a, b, c, d, e, f] \<Rightarrow>
             (let x = e;
                  y = - f;
                  matrix = negate_col1 (negate_row1 (set_block a b c d identity))
              in Inr (shift (padd (pscale x RIGHT) (pscale y UP))
                        (map (map (\<lambda>p. dot p matrix)) mobject)))
         | _ \<Rightarrow> Inl ValueError)
      else if op_name = ''scale'' then
        (case op_args of
           [scale_x, scale_y] \<Rightarrow> Inr (scale (scale_x, scale_y, 1) mobject)
         | [s] \<Rightarrow> Inr (scale (s, s, 1) mobject)
         | _ \<Rightarrow> Inr mobject)
      else if op_name = ''translate'' then
        (case op_args of
           [x, y] \<Rightarrow> Inr (shift (padd (pscale x RIGHT) (pscale y DOWN)) mobject)
         | [x] \<Rightarrow> Inr (shift (padd (pscale x RIGHT) (pscale 0 DOWN)) mobject)
         | [x, _, _] \<Rightarrow> Inr (shift (padd (pscale x RIGHT) (pscale 0 DOWN)) mobject)
         | _ \<Rightarrow> Inl ValueError)
      else Inr mobject)"

text \<open>
  One matched transform: \<^verbatim>\<open>op_name, op_args = t.split("(")\<close> needs exactly two parts.
  The texts \<^verbatim>\<open>number_regex\<close> matches are decimal literals, so their floats are finite.
\<close>

definition handle_transform :: "string \<Rightarrow> family \<Rightarrow> error + family" where
  "handle_transform t mobject =
     (case re_split (\<lambda>c. c = CHR ''('') t of
        [op_name, op_args] \<Rightarrow>
          (case map_result float (re_findall match_number op_args) of
             Inl e \<Rightarrow> Inl e
           | Inr xs \<Rightarrow>
               (case map_result finite_value xs of
                  Inl e \<Rightarrow> Inl e
                | Inr args \<Rightarrow> transform_op (strip op_name) args mobject))
      | _ \<Rightarrow> Inl ValueError)"

fun handle_transform_list :: "string list \<Rightarrow> family \<Rightarrow> error + family" where
  "handle_transform_list [] mobject = Inr mobject"
| "handle_transform_list (t # ts) mobject =
     (case handle_transform t mobject of
        Inl e \<Rightarrow> Inl e
      | Inr mobject' \<Rightarrow> handle_transform_list ts mobject')"

definition handle_transforms :: "element \<Rightarrow> family \<Rightarrow> error + family" where
  "handle_transforms element mobject =
     (case (if hasAttribute element ''x'' \<and> hasAttribute element ''y'' then
              (case attribute_to_float (getAttribute element ''x'') of
                 Inl e \<Rightarrow> Inl e
               | Inr x \<Rightarrow>
                   (case attribute_to_float (getAttribute element ''y'') of
                      Inl e \<Rightarrow> Inl e
                    | Inr y0 \<Rightarrow>
                        Inr (shift (padd (pscale x RIGHT) (pscale (- y0) UP)) mobject)))
            else Inr mobject) of
        Inl e \<Rightarrow> Inl e
      | Inr mobject' \<Rightarrow>
          handle_transform_list
            (re_findall (match_transform transform_names) (getAttribute element ''transform''))
            mobject')"

section \<open>Values for the examples\<close>

text \<open>
  A freshly constructed \<^verbatim>\<open>VMobjectFromSVGPathstring\<close> with the \<^verbatim>\<open>CONFIG\<close> of the
  class: no points yet, both optional passes off.
\<close>

definition new_vmobject :: "string \<Rightarrow> vmobject" where
  "new_vmobject s =
     \<lparr>path_string = s,
      should_subdivide_sharp_curves = False,
      should_remove_null_curves = False,
      relative_point = ORIGIN,
      points = []\<rparr>"

text \<open>
  Stand-ins for the examples only: a digest that is the same for every string, a data
  directory, passes that change nothing; an empty, writable disk and a read-only one.
\<close>

definition example_externals :: externals where
  "example_externals =
     \<lparr>sha256_hexdigest = (\<lambda>s. ''9f86d081884c7d659a2feaa0c55ad015''),
      get_mobject_data_dir = ''data'',
      subdivide_sharp_curves = (\<lambda>ps. ps),
      get_points_without_null_curves = (\<lambda>ps. ps)\<rparr>"

definition empty_disk :: filesystem where
  "empty_disk = \<lparr>files = (\<lambda>p. None), writable = (\<lambda>p. True)\<rparr>"

definition read_only_disk :: filesystem where
  "read_only_disk = \<lparr>files = (\<lambda>p. None), writable = (\<lambda>p. False)\<rparr>"

text \<open>
  The points \<^verbatim>\<open>init_points\<close> leaves in a fresh object for a path string, on the empty
  disk: the first compilation of the path.
\<close>

definition compiled_points :: "string \<Rightarrow> (error + draw_call list) option" where
  "compiled_points s =
     (case init_points example_externals empty_disk (new_vmobject s) of
        None \<Rightarrow> None
      | Some (Inl e) \<Rightarrow> Some (Inl e)
      | Some (Inr (self, fs)) \<Rightarrow> Some (Inr (get_points self)))"

text \<open>
  A document with one definition, \<^verbatim>\<open><path id="p" fill="red" d="M0,0"/>\<close>, registered
  with its style, and two references to it and to nothing.
\<close>

definition example_def_element :: element where
  "example_def_element =
     Element ''path'' [(''id'', ''p''), (''fill'', ''red''), (''d'', ''M0,0'')] []"

definition example_svg :: svgmobject where
  "example_svg =
     \<lparr>file_name = ''a.svg'',
      def_map = [''p'' \<mapsto> ([''fill'' \<mapsto> ''red''], example_def_element)],
      warnings = []\<rparr>"

definition example_use :: element where
  "example_use = Element ''use'' [(''xlink:href'', ''#p''), (''fill'', ''blue'')] []"

definition example_use_missing :: element where
  "example_use_missing = Element ''use'' [(''xlink:href'', ''#missing'')] []"

definition example_local_style :: style where
  "example_local_style = [''fill'' \<mapsto> ''blue'', ''stroke'' \<mapsto> ''black'']"

text \<open>A walker for the examples: its geometry is the fill and the stroke it is handed.\<close>

definition example_walker ::
    "element \<Rightarrow> style \<Rightarrow> svgmobject \<Rightarrow> error + string option list \<times> svgmobject" where
  "example_walker e st self = Inr ([st ''fill'', st ''stroke''], self)"

definition example_rect :: element where
  "example_rect = Element ''rect'' [(''width'', ''10px''), (''height'', ''4'')] []"

definition example_rect_bad_rx :: element where
  "example_rect_bad_rx =
     Element ''rect'' [(''width'', ''10''), (''height'', ''4''), (''rx'', ''2x'')] []"

definition example_rect_inf :: element where
  "example_rect_inf =
     Element ''rect''
       [(''width'', ''10''), (''height'', ''4''), (''rx'', ''inf''), (''stroke-width'', ''2'')] []"

section \<open>The transform composer\<close>

text \<open>
  C6. For a \<^verbatim>\<open>matrix(a b c d e f)\<close> operation the composer builds the linear part from
  \<open>(a, b, c, d)\<close> with its Y row and then its Y column negated, multiplies every point of
  every member of the group from the right by it, and then shifts by \<open>(e, -f)\<close>: a point
  \<open>(px, py)\<close> goes to \<open>(a px - c py + e, -b px + d py - f)\<close>, its third coordinate
  unchanged.
\<close>

theorem C6_matrix_transform:
  "transform_op ''matrix'' [a, b, c, d, e, f] mobject
     = Inr (map (map (\<lambda>(px, py, pz). (a * px - c * py + e, - b * px + d * py - f, pz))) mobject)"
  by (auto simp: transform_op_def shift_def RIGHT_def UP_def identity_def algebra_simps)

text \<open>
  The same at the text of a \<^verbatim>\<open>transform\<close> attribute, and through the theorem, on a
  group of two members.
\<close>

theorem C6_matrix_transform_witness:
  "handle_transforms (Element ''g'' [(''transform'', ''matrix(1 2 3 4 5 6)'')] [])
       [[(1, 0, 0), (0, 1, 0)], [(2, 3, 0)]]
     = Inr [[(6, - 8, 0), (2, - 2, 0)], [(- 2, 2, 0)]]
   \<and> transform_op ''matrix'' [1, 2, 3, 4, 5, 6] [[(1, 0, 0), (0, 1, 0)], [(2, 3, 0)]]
     = Inr [[(6, - 8, 0), (2, - 2, 0)], [(- 2, 2, 0)]]"
proof
  show "handle_transforms (Element ''g'' [(''transform'', ''matrix(1 2 3 4 5 6)'')] [])
          [[(1, 0, 0), (0, 1, 0)], [(2, 3, 0)]]
        = Inr [[(6, - 8, 0), (2, - 2, 0)], [(- 2, 2, 0)]]"
    by code_simp
  show "transform_op ''matrix'' [1, 2, 3, 4, 5, 6] [[(1, 0, 0), (0, 1, 0)], [(2, 3, 0)]]
        = Inr [[(6, - 8, 0), (2, - 2, 0)], [(- 2, 2, 0)]]"
    using C6_matrix_transform [of 1 2 3 4 5 6 "[[(1, 0, 0), (0, 1, 0)], [(2, 3, 0)]]"]
    by simp
qed

section \<open>References to definitions\<close>

text \<open>
  C7. When the id of a \<^verbatim>\<open><use>\<close> element is registered, the referenced element is
  walked with the definition-time style merged over the use-site style: on every key the
  definition-time style defines its value wins, every other key keeps the use-site value.
\<close>

theorem C7_use_style_precedence:
  assumes "def_map self (drop 1 (getAttribute use_element ''xlink:href''))
             = Some (def_style, def_element)"
  shows "use_to_mobjects get_mobjects_from use_element local_style self
           = get_mobjects_from def_element (local_style ++ def_style) self
         \<and> (\<forall>k v. def_style k = Some v \<longrightarrow> (local_style ++ def_style) k = Some v)
         \<and> (\<forall>k. def_style k = None \<longrightarrow> (local_style ++ def_style) k = local_style k)"
  using assms by (simp add: use_to_mobjects_def map_add_def)

text \<open>
  A definition with fill red, used where the fill is blue and the stroke black, is walked
  with fill red and stroke black.
\<close>

theorem C7_use_style_precedence_witness:
  "use_to_mobjects example_walker example_use example_local_style example_svg
     = Inr ([Some ''red'', Some ''black''], example_svg)"
proof -
  have reg: "def_map example_svg (drop 1 (getAttribute example_use ''xlink:href''))
               = Some ([''fill'' \<mapsto> ''red''], example_def_element)"
    by (simp add: example_svg_def example_use_def getAttribute_def)
  show ?thesis
    using C7_use_style_precedence [OF reg, of example_walker example_local_style]
    by (simp add: example_walker_def example_local_style_def)
qed

text \<open>
  C8. When the id of a \<^verbatim>\<open><use>\<close> element (its \<^verbatim>\<open>xlink:href\<close> without the first
  character) is not registered, the resolution does not raise: it returns no geometry and
  records one warning that names the file and the id.
\<close>

theorem C8_unknown_use:
  assumes "def_map self (drop 1 (getAttribute use_element ''xlink:href'')) = None"
  shows "use_to_mobjects get_mobjects_from use_element local_style self
           = Inr ([], self\<lparr>warnings := warnings self @
               [file_name self @ '' contains a reference to id #''
                  @ drop 1 (getAttribute use_element ''xlink:href'')
                  @ '', which is not recognized'']\<rparr>)"
  using assms by (simp add: use_to_mobjects_def)

theorem C8_unknown_use_witness:
  "use_to_mobjects example_walker example_use_missing example_local_style example_svg
     = Inr ([], example_svg\<lparr>warnings :=
         [''a.svg contains a reference to id #missing, which is not recognized'']\<rparr>)"
proof -
  have unreg: "def_map example_svg (drop 1 (getAttribute example_use_missing ''xlink:href''))
                 = None"
    by (simp add: example_svg_def example_use_missing_def getAttribute_def)
  show ?thesis
    using C8_unknown_use [OF unreg, of example_walker example_local_style]
    by (simp add: example_svg_def example_use_missing_def getAttribute_def)
qed

section \<open>Numeric attributes\<close>

subsection \<open>What \<^verbatim>\<open>float\<close> makes of digits, dots and minus signs\<close>

lemma isdigit_not_sep:
  "isdigit c \<Longrightarrow> c \<noteq> CHR ''.'' \<and> c \<noteq> CHR ''-'' \<and> c \<noteq> CHR ''e'' \<and> c \<noteq> CHR ''E''"
  by (auto simp: isdigit_def digits_def)

lemma digits_only:
  assumes "\<forall>c \<in> set xs. isdigit c"
  shows "filter isdigit xs = xs" "filter (\<lambda>c. c = CHR ''.'') xs = []" "CHR ''-'' \<notin> set xs"
        "takeWhile isdigit (xs @ ys) = xs @ takeWhile isdigit ys"
        "dropWhile isdigit (xs @ ys) = dropWhile isdigit ys"
  using assms isdigit_not_sep by (auto simp: filter_empty_conv)

lemma float_exponent_junk:
  "c \<noteq> CHR ''e'' \<Longrightarrow> c \<noteq> CHR ''E'' \<Longrightarrow> float_exponent (c # rest) = Inl ValueError"
  by (simp add: float_exponent_def)

lemma float_decimal_integer:
  assumes "\<forall>c \<in> set ip. isdigit c"
  shows "float_decimal neg ip =
           (if ip = [] then Inl ValueError
            else Inr (Finite (if neg then - real (digits_value ip) else real (digits_value ip))))"
proof -
  have 1: "takeWhile isdigit ip = ip" "dropWhile isdigit ip = []"
    using assms by simp_all
  show ?thesis
    by (simp add: float_decimal_def Let_def 1 float_exponent_def digits_value_def)
qed

lemma float_decimal_fraction:
  assumes "\<forall>c \<in> set ip. isdigit c" "\<forall>c \<in> set fp. isdigit c"
  shows "float_decimal neg (ip @ CHR ''.'' # fp) =
           (if ip = [] \<and> fp = [] then Inl ValueError
            else Inr (Finite (if neg
                              then - (real (digits_value ip) + real (digits_value fp) / 10 ^ length fp)
                              else real (digits_value ip) + real (digits_value fp) / 10 ^ length fp)))"
proof -
  have d: "\<not> isdigit CHR ''.''" using isdigit_not_sep by blast
  have 1: "takeWhile isdigit (ip @ CHR ''.'' # fp) = ip"
    using digits_only(4) [OF assms(1)] d by simp
  have 2: "dropWhile isdigit (ip @ CHR ''.'' # fp) = CHR ''.'' # fp"
    using digits_only(5) [OF assms(1)] d by simp
  have 3: "takeWhile isdigit fp = fp" "dropWhile isdigit fp = []"
    using assms(2) by simp_all
  show ?thesis
    by (simp add: float_decimal_def Let_def 1 2 3 float_exponent_def)
qed

lemma float_decimal_junk:
  assumes "\<forall>c \<in> set ip. isdigit c" "\<not> isdigit c" "c \<noteq> CHR ''.''" "c \<noteq> CHR ''e''" "c \<noteq> CHR ''E''"
  shows "float_decimal neg (ip @ c # rest) = Inl ValueError"
proof -
  have 1: "takeWhile isdigit (ip @ c # rest) = ip"
    using digits_only(4) [OF assms(1)] assms(2) by simp
  have 2: "dropWhile isdigit (ip @ c # rest) = c # rest"
    using digits_only(5) [OF assms(1)] assms(2) by simp
  show ?thesis
    using assms(3-5) by (simp add: float_decimal_def Let_def 1 2 float_exponent_junk)
qed

lemma float_decimal_fraction_junk:
  assumes "\<forall>c \<in> set ip. isdigit c" "\<forall>c \<in> set fp. isdigit c"
    "\<not> isdigit d" "d \<noteq> CHR ''e''" "d \<noteq> CHR ''E''"
  shows "float_decimal neg (ip @ CHR ''.'' # fp @ d # rest) = Inl ValueError"
proof -
  have dd: "\<not> isdigit CHR ''.''" using isdigit_not_sep by blast
  have 1: "takeWhile isdigit (ip @ CHR ''.'' # fp @ d # rest) = ip"
    using digits_only(4) [OF assms(1)] dd by simp
  have 2: "dropWhile isdigit (ip @ CHR ''.'' # fp @ d # rest) = CHR ''.'' # fp @ d # rest"
    using digits_only(5) [OF assms(1)] dd by simp
  have 3: "takeWhile isdigit (fp @ d # rest) = fp" "dropWhile isdigit (fp @ d # rest) = d # rest"
    using digits_only(4,5) [OF assms(2)] assms(3) by simp_all
  show ?thesis
    using assms(4,5) by (simp add: float_decimal_def Let_def 1 2 3 float_exponent_junk)
qed

lemma dropWhile_head: "dropWhile P xs = c # r \<Longrightarrow> \<not> P c"
  by (induction xs) (auto split: if_splits)

lemma float_decimal_kept:
  assumes kept: "\<forall>c \<in> set s. isdigit c \<or> c = CHR ''.'' \<or> c = CHR ''-''"
  shows "((float_decimal neg s = Inl ValueError) =
            (filter isdigit s = [] \<or> CHR ''-'' \<in> set s
               \<or> 2 \<le> length (filter (\<lambda>c. c = CHR ''.'') s)))
         \<and> (float_decimal neg s = Inl ValueError \<or> (\<exists>v. float_decimal neg s = Inr (Finite v)))"
proof -
  define ip where "ip = takeWhile isdigit s"
  define r where "r = dropWhile isdigit s"
  have s: "s = ip @ r" by (simp add: ip_def r_def)
  have ipd: "\<forall>c\<in>set ip. isdigit c" by (auto simp: ip_def dest: set_takeWhileD)
  note D = digits_only(1,2,3) [OF ipd]
  show ?thesis
  proof (cases r)
    case Nil
    show ?thesis using float_decimal_integer [OF ipd, of neg] D by (auto simp: s Nil)
  next
    case (Cons c r0)
    have nd: "\<not> isdigit c"
      using dropWhile_head [of isdigit s c r0] Cons r_def by simp
    have cc: "c = CHR ''.'' \<or> c = CHR ''-''" using kept nd s Cons by auto
    show ?thesis
    proof (cases "c = CHR ''-''")
      case True
      have "float_decimal neg (ip @ c # r0) = Inl ValueError"
        using True by (intro float_decimal_junk [OF ipd nd]) simp_all
      then show ?thesis using True by (simp add: s Cons)
    next
      case False
      with cc have c: "c = CHR ''.''" by simp
      define fp where "fp = takeWhile isdigit r0"
      define r1 where "r1 = dropWhile isdigit r0"
      have r0: "r0 = fp @ r1" by (simp add: fp_def r1_def)
      have fpd: "\<forall>c\<in>set fp. isdigit c" by (auto simp: fp_def dest: set_takeWhileD)
      note F = digits_only(1,2,3) [OF fpd]
      show ?thesis
      proof (cases r1)
        case Nil
        show ?thesis
          using float_decimal_fraction [OF ipd fpd, of neg] D F isdigit_not_sep
          by (auto simp: s Cons c r0 Nil)
      next
        case d: (Cons d r2)
        have ndd: "\<not> isdigit d"
          using dropWhile_head [of isdigit r0 d r2] d r1_def by simp
        have dd: "d = CHR ''.'' \<or> d = CHR ''-''" using kept ndd s Cons r0 d by auto
        have "float_decimal neg (ip @ CHR ''.'' # fp @ d # r2) = Inl ValueError"
          using dd by (intro float_decimal_fraction_junk [OF ipd fpd ndd]) auto
        then show ?thesis using dd D F by (auto simp: s Cons c r0 d)
      qed
    qed
  qed
qed

lemma kept_all_not_space: "\<forall>c \<in> set (digits @ ''.'' @ ''-''). \<not> float_isspace c"
  by code_simp

lemma kept_all_lower: "\<forall>c \<in> set (digits @ ''.'' @ ''-''). lower c = c"
  by code_simp

lemma kept_no_letters:
  "\<forall>c \<in> set (digits @ ''.'' @ ''-'').
     c \<noteq> CHR ''i'' \<and> c \<noteq> CHR ''n'' \<and> c \<noteq> CHR ''_'' \<and> c \<noteq> CHR ''+''"
  by code_simp

lemma kept_cases:
  "c \<in> set (digits @ ''.'' @ ''-'') \<longleftrightarrow> isdigit c \<or> c = CHR ''.'' \<or> c = CHR ''-''"
  by (auto simp: isdigit_def digits_def)

lemma underscores_none:
  "CHR ''_'' \<notin> set s \<Longrightarrow> prev \<noteq> CHR ''_'' \<Longrightarrow> underscores_from prev s"
  by (induction s arbitrary: prev) auto

lemma dropWhile_none: "\<forall>c \<in> set s. \<not> P c \<Longrightarrow> dropWhile P s = s"
  by (cases s) auto

lemma float_strip_none: "\<forall>c \<in> set s. \<not> float_isspace c \<Longrightarrow> float_strip s = s"
  by (simp add: float_strip_def dropWhile_none)

lemma float_kept:
  assumes kept: "\<forall>c \<in> set t. c \<in> set (digits @ ''.'' @ ''-'')"
  shows "float t = float_decimal (t \<noteq> [] \<and> hd t = CHR ''-'')
                     (if t \<noteq> [] \<and> hd t = CHR ''-'' then tl t else t)"
proof -
  define s where "s = (if t \<noteq> [] \<and> hd t = CHR ''-'' then tl t else t)"
  have no: "\<forall>c \<in> set t. c \<noteq> CHR ''i'' \<and> c \<noteq> CHR ''n'' \<and> c \<noteq> CHR ''_'' \<and> c \<noteq> CHR ''+''"
    using kept kept_no_letters by blast
  have u: "underscores_from (CHR 0x00) t"
    using no by (intro underscores_none) auto
  have f: "filter (\<lambda>c. c \<noteq> CHR ''_'') t = t"
    using no by (simp add: filter_id_conv)
  have st: "float_strip t = t"
    using kept kept_all_not_space by (intro float_strip_none) blast
  have sp: "split_sign t = (t \<noteq> [] \<and> hd t = CHR ''-'', s)"
    using no by (cases t) (auto simp: split_sign_def s_def)
  have sub: "set s \<subseteq> set t"
    by (cases t) (auto simp: s_def)
  have low: "map lower s = s"
    using sub kept kept_all_lower by (intro map_idI) blast
  have i: "CHR ''i'' \<notin> set s" and n: "CHR ''n'' \<notin> set s"
    using sub no by blast+
  have w1: "s \<noteq> ''inf''"
  proof
    assume "s = ''inf''"
    then have "CHR ''i'' \<in> set s" by simp
    with i show False by simp
  qed
  have w2: "s \<noteq> ''infinity''"
  proof
    assume "s = ''infinity''"
    then have "CHR ''i'' \<in> set s" by simp
    with i show False by simp
  qed
  have w3: "s \<noteq> ''nan''"
  proof
    assume "s = ''nan''"
    then have "CHR ''n'' \<in> set s" by simp
    with n show False by simp
  qed
  have "float t = float_decimal (t \<noteq> [] \<and> hd t = CHR ''-'') s"
    using u w1 w2 w3 by (simp add: float_def f st sp low)
  then show ?thesis by (simp add: s_def)
qed

lemma attribute_to_float_decimal:
  "attribute_to_float attr =
     (let t = filter (\<lambda>char. char \<in> set (digits @ ''.'' @ ''-'')) attr
      in case float_decimal (t \<noteq> [] \<and> hd t = CHR ''-'')
                (if t \<noteq> [] \<and> hd t = CHR ''-'' then tl t else t) of
           Inl e \<Rightarrow> Inl e
         | Inr x \<Rightarrow> finite_value x)"
proof -
  have "\<forall>c \<in> set (filter (\<lambda>char. char \<in> set (digits @ ''.'' @ ''-'')) attr).
          c \<in> set (digits @ ''.'' @ ''-'')"
    by simp
  from float_kept [OF this] show ?thesis
    by (simp add: attribute_to_float_def Let_def)
qed

lemma attribute_to_float_outcome:
  fixes attr :: string
  defines "t \<equiv> filter (\<lambda>char. char \<in> set (digits @ ''.'' @ ''-'')) attr"
  shows "((attribute_to_float attr = Inl ValueError) =
            (filter isdigit attr = [] \<or> CHR ''-'' \<in> set (tl t)
               \<or> 2 \<le> length (filter (\<lambda>c. c = CHR ''.'') attr)))
         \<and> (attribute_to_float attr = Inl ValueError \<or> (\<exists>v. attribute_to_float attr = Inr v))"
proof -
  define neg where "neg = (t \<noteq> [] \<and> hd t = CHR ''-'')"
  define s where "s = (if neg then tl t else t)"
  have K: "\<And>c. c \<in> set t \<Longrightarrow> isdigit c \<or> c = CHR ''.'' \<or> c = CHR ''-''"
    using kept_cases by (simp add: t_def)
  have sub: "set s \<subseteq> set t" by (cases t) (auto simp: s_def)
  have keptS: "\<forall>c \<in> set s. isdigit c \<or> c = CHR ''.'' \<or> c = CHR ''-''"
    using K sub by blast
  note FD = float_decimal_kept [OF keptS, of neg]
  have a: "attribute_to_float attr =
             (case float_decimal neg s of Inl e \<Rightarrow> Inl e | Inr x \<Rightarrow> finite_value x)"
    by (simp only: attribute_to_float_decimal [of attr] Let_def s_def neg_def t_def)
  have nm: "\<not> isdigit CHR ''-''" using isdigit_not_sep by blast
  have t_s: "t = s \<or> t = CHR ''-'' # s"
    by (cases t) (auto simp: s_def neg_def)
  have dig_t: "filter isdigit t = filter isdigit attr"
    using kept_cases by (auto simp: t_def intro: filter_cong)
  have dot_t: "filter (\<lambda>c. c = CHR ''.'') t = filter (\<lambda>c. c = CHR ''.'') attr"
    using kept_cases by (auto simp: t_def intro: filter_cong)
  have dig: "filter isdigit s = filter isdigit attr"
    using t_s nm dig_t by auto
  have dot: "filter (\<lambda>c. c = CHR ''.'') s = filter (\<lambda>c. c = CHR ''.'') attr"
    using t_s dot_t by auto
  have minus: "(CHR ''-'' \<in> set s) = (CHR ''-'' \<in> set (tl t))"
    by (cases t) (auto simp: s_def neg_def)
  have fails: "(attribute_to_float attr = Inl ValueError) = (float_decimal neg s = Inl ValueError)"
    using FD by (auto simp: a finite_value_def)
  have total: "attribute_to_float attr = Inl ValueError \<or> (\<exists>v. attribute_to_float attr = Inr v)"
    using FD by (auto simp: a finite_value_def)
  show ?thesis
    using FD fails total by (simp add: dig dot minus)
qed

lemma attribute_to_float_of_kept:
  assumes "filter (\<lambda>char. char \<in> set (digits @ ''.'' @ ''-'')) attr = t"
  shows "attribute_to_float attr =
           (case float_decimal (t \<noteq> [] \<and> hd t = CHR ''-'')
                   (if t \<noteq> [] \<and> hd t = CHR ''-'' then tl t else t) of
              Inl e \<Rightarrow> Inl e
            | Inr x \<Rightarrow> finite_value x)"
  by (simp only: attribute_to_float_decimal [of attr] Let_def assms)

lemma attribute_to_float_fraction:
  assumes t: "filter (\<lambda>char. char \<in> set (digits @ ''.'' @ ''-'')) attr
                = (if neg then ''-'' else []) @ ip @ CHR ''.'' # fp"
    and ip: "\<forall>c \<in> set ip. isdigit c" and fp: "\<forall>c \<in> set fp. isdigit c"
    and ne: "ip \<noteq> [] \<or> fp \<noteq> []"
  shows "attribute_to_float attr =
           Inr ((if neg then - 1 else 1)
                * (real (digits_value ip) + real (digits_value fp) / 10 ^ length fp))"
proof -
  have h: "hd (ip @ CHR ''.'' # fp) \<noteq> CHR ''-''"
    using ip isdigit_not_sep by (cases ip) auto
  show ?thesis
  proof (cases neg)
    case True
    then show ?thesis
      using float_decimal_fraction [OF ip fp, of True] ne
      by (simp add: attribute_to_float_of_kept [OF t] finite_value_def)
  next
    case False
    then show ?thesis
      using float_decimal_fraction [OF ip fp, of False] ne h
      by (simp add: attribute_to_float_of_kept [OF t] finite_value_def)
  qed
qed

lemma attribute_to_float_integer:
  assumes t: "filter (\<lambda>char. char \<in> set (digits @ ''.'' @ ''-'')) attr
                = (if neg then ''-'' else []) @ ip"
    and ip: "\<forall>c \<in> set ip. isdigit c" and ne: "ip \<noteq> []"
  shows "attribute_to_float attr = Inr ((if neg then - 1 else 1) * real (digits_value ip))"
proof -
  have h: "hd ip \<noteq> CHR ''-''"
    using ip ne isdigit_not_sep by (cases ip) auto
  show ?thesis
  proof (cases neg)
    case True
    then show ?thesis
      using float_decimal_integer [OF ip, of True] ne
      by (simp add: attribute_to_float_of_kept [OF t] finite_value_def)
  next
    case False
    then show ?thesis
      using float_decimal_integer [OF ip, of False] ne h
      by (simp add: attribute_to_float_of_kept [OF t] finite_value_def)
  qed
qed

lemma rect_default_radius:
  assumes "getAttribute rect_element ''rx'' \<in> set [[], ''0'', ''none'']"
    and "attribute_to_float (getAttribute rect_element ''width'') = Inr w"
    and "attribute_to_float (getAttribute rect_element ''height'') = Inr h"
  shows "\<exists>r. rect_to_mobject rect_element style = Inr r \<and> rect_shape r = Rectangle w h"
proof -
  have rx: "(getAttribute rect_element ''rx'' \<in> set [[], ''0'', ''none'']) = True"
    using assms(1) by simp
  show ?thesis
    unfolding rect_to_mobject_def Let_def rx using assms(2,3) by simp
qed

lemma rect_given_radius:
  assumes "getAttribute rect_element ''rx'' \<notin> set [[], ''0'', ''none'']"
    and "float (getAttribute rect_element ''rx'') = Inr x"
    and "attribute_to_float (getAttribute rect_element ''width'') = Inr w"
    and "attribute_to_float (getAttribute rect_element ''height'') = Inr h"
  shows "\<exists>r. rect_to_mobject rect_element style = Inr r
           \<and> rect_shape r = (if x = Finite 0 then Rectangle w h else RoundedRectangle w h x)"
proof -
  have rx: "(getAttribute rect_element ''rx'' \<in> set [[], ''0'', ''none'']) = False"
    using assms(1) by simp
  show ?thesis
    unfolding rect_to_mobject_def Let_def rx using assms(2,3,4) by simp
qed

lemma rect_bad_radius:
  assumes "getAttribute rect_element ''rx'' \<notin> set [[], ''0'', ''none'']"
    and "float (getAttribute rect_element ''rx'') = Inl e"
  shows "rect_to_mobject rect_element style = Inl e"
proof -
  have rx: "(getAttribute rect_element ''rx'' \<in> set [[], ''0'', ''none'']) = False"
    using assms(1) by simp
  show ?thesis
    unfolding rect_to_mobject_def Let_def rx using assms(2) by simp
qed

lemma rect_stroke_width_of:
  assumes "rect_to_mobject rect_element style = Inr r"
  shows "rect_stroke_width r =
           (if getAttribute rect_element ''stroke-width'' \<in> set [[], ''none'', ''0'']
            then StrokeZero else StrokeText (getAttribute rect_element ''stroke-width''))"
  using assms unfolding rect_to_mobject_def Let_def
  by (auto split: sum.splits if_splits)

lemma rect_bad_size:
  assumes "getAttribute rect_element ''rx'' \<in> set [[], ''0'', ''none'']
           \<or> float (getAttribute rect_element ''rx'') = Inr x"
    and "attribute_to_float (getAttribute rect_element ''width'') = Inl e
         \<or> attribute_to_float (getAttribute rect_element ''width'') = Inr w
             \<and> attribute_to_float (getAttribute rect_element ''height'') = Inl e"
  shows "rect_to_mobject rect_element style = Inl e"
proof (cases "getAttribute rect_element ''rx'' \<in> set [[], ''0'', ''none'']")
  case True
  then have rx: "(getAttribute rect_element ''rx'' \<in> set [[], ''0'', ''none'']) = True"
    by simp
  show ?thesis
    unfolding rect_to_mobject_def Let_def rx using assms(2) by auto
next
  case False
  then have rx: "(getAttribute rect_element ''rx'' \<in> set [[], ''0'', ''none'']) = False"
    by simp
  from False assms(1) have x: "float (getAttribute rect_element ''rx'') = Inr x" by blast
  show ?thesis
    unfolding rect_to_mobject_def Let_def rx using assms(2) x by auto
qed

subsection \<open>The claim\<close>

text \<open>
  C9, as the spec states it, fails: \<^verbatim>\<open>1x2\<close> is not a number (\<^verbatim>\<open>float\<close> rejects it), and
  \<^verbatim>\<open>attribute_to_float\<close> makes 12 of it without a word.
\<close>

theorem C9_counterexample:
  "float ''1x2'' = Inl ValueError \<and> attribute_to_float ''1x2'' = Inr 12"
  by code_simp

text \<open>
  C9, amended. \<^verbatim>\<open>attribute_to_float\<close> keeps the digits, the dots and the minus signs of
  the text, drops every other character, and reads what it kept as a decimal number. It
  fails, with a \<open>ValueError\<close> and with nothing else, exactly when the text has no digit, or
  more than one dot, or a minus sign behind the first character kept; otherwise it returns
  the number: a kept text \<^verbatim>\<open>-12.5\<close> is minus twelve and a half. Of a rect, the corner
  radius \<^verbatim>\<open>rx\<close> is handed to \<^verbatim>\<open>float\<close> as it stands: a text \<^verbatim>\<open>float\<close> refuses fails the
  rect, every other gives a rounded rectangle with that radius, or a plain rectangle when
  the radius is zero. A malformed width or height fails the rect as well. The defaults
  are silent and independent of each other: an \<^verbatim>\<open>rx\<close> that is missing, empty, \<^verbatim>\<open>0\<close> or
  \<^verbatim>\<open>none\<close> gives the plain rectangle whatever the stroke width, and a \<^verbatim>\<open>stroke-width\<close>
  that is missing, empty, \<^verbatim>\<open>none\<close> or \<^verbatim>\<open>0\<close> gives the stroke width 0 whatever the radius;
  any other \<^verbatim>\<open>stroke-width\<close> is handed on as its text.
\<close>

theorem C9_attribute_parsing:
  "((attribute_to_float attr = Inl ValueError) =
      (filter isdigit attr = []
       \<or> CHR ''-'' \<in> set (tl (filter (\<lambda>char. char \<in> set (digits @ ''.'' @ ''-'')) attr))
       \<or> 2 \<le> length (filter (\<lambda>c. c = CHR ''.'') attr)))
   \<and> (attribute_to_float attr = Inl ValueError \<or> (\<exists>v. attribute_to_float attr = Inr v))
   \<and> (filter (\<lambda>char. char \<in> set (digits @ ''.'' @ ''-'')) attr
         = (if neg then ''-'' else []) @ ip @ CHR ''.'' # fp
       \<and> list_all isdigit ip \<and> list_all isdigit fp \<and> (ip \<noteq> [] \<or> fp \<noteq> [])
      \<longrightarrow> attribute_to_float attr
            = Inr ((if neg then - 1 else 1)
                   * (real (digits_value ip) + real (digits_value fp) / 10 ^ length fp)))
   \<and> (filter (\<lambda>char. char \<in> set (digits @ ''.'' @ ''-'')) attr
         = (if neg then ''-'' else []) @ ip
       \<and> list_all isdigit ip \<and> ip \<noteq> []
      \<longrightarrow> attribute_to_float attr = Inr ((if neg then - 1 else 1) * real (digits_value ip)))
   \<and> (getAttribute rect_element ''rx'' \<notin> set [[], ''0'', ''none'']
        \<and> float (getAttribute rect_element ''rx'') = Inl e
      \<longrightarrow> rect_to_mobject rect_element style = Inl e)
   \<and> ((getAttribute rect_element ''rx'' \<in> set [[], ''0'', ''none'']
         \<or> float (getAttribute rect_element ''rx'') = Inr x)
        \<and> (attribute_to_float (getAttribute rect_element ''width'') = Inl e
             \<or> attribute_to_float (getAttribute rect_element ''width'') = Inr w
                 \<and> attribute_to_float (getAttribute rect_element ''height'') = Inl e)
      \<longrightarrow> rect_to_mobject rect_element style = Inl e)
   \<and> (getAttribute rect_element ''rx'' \<in> set [[], ''0'', ''none'']
        \<and> attribute_to_float (getAttribute rect_element ''width'') = Inr w
        \<and> attribute_to_float (getAttribute rect_element ''height'') = Inr h
      \<longrightarrow> (\<exists>r. rect_to_mobject rect_element style = Inr r \<and> rect_shape r = Rectangle w h))
   \<and> (getAttribute rect_element ''rx'' \<notin> set [[], ''0'', ''none'']
        \<and> float (getAttribute rect_element ''rx'') = Inr x
        \<and> attribute_to_float (getAttribute rect_element ''width'') = Inr w
        \<and> attribute_to_float (getAttribute rect_element ''height'') = Inr h
      \<longrightarrow> (\<exists>r. rect_to_mobject rect_element style = Inr r
                \<and> rect_shape r = (if x = Finite 0 then Rectangle w h
                                    else RoundedRectangle w h x)))
   \<and> (rect_to_mobject rect_element style = Inr r
      \<longrightarrow> rect_stroke_width r =
            (if getAttribute rect_element ''stroke-width'' \<in> set [[], ''none'', ''0'']
             then StrokeZero
             else StrokeText (getAttribute rect_element ''stroke-width'')))"
proof -
  note outcome = attribute_to_float_outcome [of attr]
  have fraction:
    "filter (\<lambda>char. char \<in> set (digits @ ''.'' @ ''-'')) attr
         = (if neg then ''-'' else []) @ ip @ CHR ''.'' # fp
       \<and> list_all isdigit ip \<and> list_all isdigit fp \<and> (ip \<noteq> [] \<or> fp \<noteq> [])
      \<longrightarrow> attribute_to_float attr
            = Inr ((if neg then - 1 else 1)
                   * (real (digits_value ip) + real (digits_value fp) / 10 ^ length fp))"
    using attribute_to_float_fraction [of attr neg ip fp]
    by (simp only: list_all_iff) blast
  have integer:
    "filter (\<lambda>char. char \<in> set (digits @ ''.'' @ ''-'')) attr
         = (if neg then ''-'' else []) @ ip
       \<and> list_all isdigit ip \<and> ip \<noteq> []
      \<longrightarrow> attribute_to_float attr = Inr ((if neg then - 1 else 1) * real (digits_value ip))"
    using attribute_to_float_integer [of attr neg ip]
    by (simp only: list_all_iff) blast
  have bad_radius:
    "getAttribute rect_element ''rx'' \<notin> set [[], ''0'', ''none'']
        \<and> float (getAttribute rect_element ''rx'') = Inl e
      \<longrightarrow> rect_to_mobject rect_element style = Inl e"
    using rect_bad_radius [of rect_element e style] by blast
  have bad_size:
    "(getAttribute rect_element ''rx'' \<in> set [[], ''0'', ''none'']
         \<or> float (getAttribute rect_element ''rx'') = Inr x)
        \<and> (attribute_to_float (getAttribute rect_element ''width'') = Inl e
             \<or> attribute_to_float (getAttribute rect_element ''width'') = Inr w
                 \<and> attribute_to_float (getAttribute rect_element ''height'') = Inl e)
      \<longrightarrow> rect_to_mobject rect_element style = Inl e"
    using rect_bad_size [of rect_element x e w style] by blast
  have default_radius:
    "getAttribute rect_element ''rx'' \<in> set [[], ''0'', ''none'']
        \<and> attribute_to_float (getAttribute rect_element ''width'') = Inr w
        \<and> attribute_to_float (getAttribute rect_element ''height'') = Inr h
      \<longrightarrow> (\<exists>r. rect_to_mobject rect_element style = Inr r \<and> rect_shape r = Rectangle w h)"
    using rect_default_radius [of rect_element w h style] by blast
  have given_radius:
    "getAttribute rect_element ''rx'' \<notin> set [[], ''0'', ''none'']
        \<and> float (getAttribute rect_element ''rx'') = Inr x
        \<and> attribute_to_float (getAttribute rect_element ''width'') = Inr w
        \<and> attribute_to_float (getAttribute rect_element ''height'') = Inr h
      \<longrightarrow> (\<exists>r. rect_to_mobject rect_element style = Inr r
                \<and> rect_shape r = (if x = Finite 0 then Rectangle w h
                                    else RoundedRectangle w h x))"
    using rect_given_radius [of rect_element x w h style] by blast
  have stroke:
    "rect_to_mobject rect_element style = Inr r
      \<longrightarrow> rect_stroke_width r =
            (if getAttribute rect_element ''stroke-width'' \<in> set [[], ''none'', ''0'']
             then StrokeZero
             else StrokeText (getAttribute rect_element ''stroke-width''))"
    using rect_stroke_width_of [of rect_element style r] by blast
  from outcome fraction integer bad_radius bad_size default_radius given_radius stroke
  show ?thesis by (intro conjI) (erule conjunct1 conjunct2 | assumption)+
qed

text \<open>
  Letters alone fail; \<^verbatim>\<open>-12.5px\<close> is minus twelve and a half; an \<^verbatim>\<open>rx\<close> of \<^verbatim>\<open>2x\<close>
  fails the rect; a rect with no \<^verbatim>\<open>rx\<close> and no \<^verbatim>\<open>stroke-width\<close> is a plain rectangle
  with stroke width 0; an \<^verbatim>\<open>rx\<close> of \<^verbatim>\<open>inf\<close> gives a rounded rectangle, its
  \<^verbatim>\<open>stroke-width\<close> of 2 handed on as text.
\<close>

theorem C9_attribute_parsing_witness:
  "attribute_to_float ''abc'' = Inl ValueError
   \<and> attribute_to_float ''-12.5px'' = Inr (- (25 / 2))
   \<and> rect_to_mobject example_rect_bad_rx Map.empty = Inl ValueError
   \<and> (\<exists>r. rect_to_mobject example_rect Map.empty = Inr r
          \<and> rect_shape r = Rectangle 10 4 \<and> rect_stroke_width r = StrokeZero)
   \<and> (\<exists>r. rect_to_mobject example_rect_inf Map.empty = Inr r
          \<and> rect_shape r = RoundedRectangle 10 4 PosInf
          \<and> rect_stroke_width r = StrokeText ''2'')"
proof -
  have 1: "attribute_to_float ''abc'' = Inl ValueError"
  proof -
    have "filter isdigit ''abc'' = []" by code_simp
    with C9_attribute_parsing [where attr = "''abc''"] show ?thesis by blast
  qed
  have 2: "attribute_to_float ''-12.5px'' = Inr (- (25 / 2))"
  proof -
    have h: "filter (\<lambda>char. char \<in> set (digits @ ''.'' @ ''-'')) ''-12.5px''
               = (if True then ''-'' else []) @ ''12'' @ CHR ''.'' # ''5''
             \<and> list_all isdigit ''12'' \<and> list_all isdigit ''5'' \<and> (''12'' \<noteq> [] \<or> ''5'' \<noteq> [])"
      by code_simp
    have v: "(if True then - 1 else 1)
               * (real (digits_value ''12'') + real (digits_value ''5'') / 10 ^ length ''5'')
             = - (25 / 2)"
      by code_simp
    from C9_attribute_parsing [where attr = "''-12.5px''" and neg = True
        and ip = "''12''" and fp = "''5''"] h
    have "attribute_to_float ''-12.5px''
            = Inr ((if True then - 1 else 1)
                   * (real (digits_value ''12'') + real (digits_value ''5'') / 10 ^ length ''5''))"
      by blast
    then show ?thesis by (simp only: v)
  qed
  have 3: "rect_to_mobject example_rect_bad_rx Map.empty = Inl ValueError"
  proof -
    have "getAttribute example_rect_bad_rx ''rx'' \<notin> set [[], ''0'', ''none'']
        \<and> float (getAttribute example_rect_bad_rx ''rx'') = Inl ValueError"
      by code_simp
    with C9_attribute_parsing [where rect_element = example_rect_bad_rx
        and e = ValueError and style = Map.empty]
    show ?thesis by blast
  qed
  have 4: "\<exists>r. rect_to_mobject example_rect Map.empty = Inr r
          \<and> rect_shape r = Rectangle 10 4 \<and> rect_stroke_width r = StrokeZero"
  proof -
    have h: "getAttribute example_rect ''rx'' \<in> set [[], ''0'', ''none'']
        \<and> attribute_to_float (getAttribute example_rect ''width'') = Inr 10
        \<and> attribute_to_float (getAttribute example_rect ''height'') = Inr 4"
      by code_simp
    have s: "getAttribute example_rect ''stroke-width'' \<in> set [[], ''none'', ''0'']"
      by code_simp
    from C9_attribute_parsing [where rect_element = example_rect and style = Map.empty
        and w = 10 and h = 4] h
    obtain r where r: "rect_to_mobject example_rect Map.empty = Inr r"
        "rect_shape r = Rectangle 10 4"
      by blast
    from C9_attribute_parsing [where rect_element = example_rect and style = Map.empty
        and r = r] r(1)
    have "rect_stroke_width r =
            (if getAttribute example_rect ''stroke-width'' \<in> set [[], ''none'', ''0'']
             then StrokeZero else StrokeText (getAttribute example_rect ''stroke-width''))"
      by blast
    with s have "rect_stroke_width r = StrokeZero" by (simp only: if_True)
    with r show ?thesis by blast
  qed
  have 5: "\<exists>r. rect_to_mobject example_rect_inf Map.empty = Inr r
          \<and> rect_shape r = RoundedRectangle 10 4 PosInf
          \<and> rect_stroke_width r = StrokeText ''2''"
  proof -
    have h: "getAttribute example_rect_inf ''rx'' \<notin> set [[], ''0'', ''none'']
        \<and> float (getAttribute example_rect_inf ''rx'') = Inr PosInf
        \<and> attribute_to_float (getAttribute example_rect_inf ''width'') = Inr 10
        \<and> attribute_to_float (getAttribute example_rect_inf ''height'') = Inr 4"
      by code_simp
    have s: "getAttribute example_rect_inf ''stroke-width'' \<notin> set [[], ''none'', ''0'']"
        "getAttribute example_rect_inf ''stroke-width'' = ''2''"
      by code_simp+
    from C9_attribute_parsing [where rect_element = example_rect_inf and style = Map.empty
        and w = 10 and h = 4 and x = PosInf] h
    obtain r where r: "rect_to_mobject example_rect_inf Map.empty = Inr r"
        "rect_shape r = (if PosInf = Finite 0 then Rectangle 10 4
                         else RoundedRectangle 10 4 PosInf)"
      by blast
    from C9_attribute_parsing [where rect_element = example_rect_inf and style = Map.empty
        and r = r] r(1)
    have "rect_stroke_width r =
            (if getAttribute example_rect_inf ''stroke-width'' \<in> set [[], ''none'', ''0'']
             then StrokeZero else StrokeText (getAttribute example_rect_inf ''stroke-width''))"
      by blast
    with s have "rect_stroke_width r = StrokeText ''2''" by (simp only: if_False)
    moreover from r(2) have "rect_shape r = RoundedRectangle 10 4 PosInf" by simp
    ultimately show ?thesis using r(1) by blast
  qed
  from 1 2 3 4 5 show ?thesis by blast
qed

section \<open>The path compiler: the commands and their arities\<close>

lemma upper_eq_Z: "upper c = CHR ''Z'' \<longleftrightarrow> c = CHR ''Z'' \<or> c = CHR ''z''"
  by (auto simp: upper_def ascii_lowercase_def ascii_uppercase_def split: if_splits)

lemma upper_eq_M: "upper c = CHR ''M'' \<longleftrightarrow> c = CHR ''M'' \<or> c = CHR ''m''"
  by (auto simp: upper_def ascii_lowercase_def ascii_uppercase_def split: if_splits)

lemma command_to_function_cases:
  assumes "command_to_function c = Inr (func, n)"
  shows "(upper c = CHR ''M'' \<and> func = call1 start_new_path \<and> n = 1)
       \<or> (upper c = CHR ''L'' \<and> func = call1 add_line_to \<and> n = 1)
       \<or> (upper c = CHR ''H'' \<and> func = call1 add_line_to \<and> n = 1)
       \<or> (upper c = CHR ''V'' \<and> func = call1 add_line_to \<and> n = 1)
       \<or> (upper c = CHR ''C'' \<and> func = call3 add_cubic_bezier_curve_to \<and> n = 3)
       \<or> (upper c = CHR ''S'' \<and> func = call2 add_smooth_cubic_curve_to \<and> n = 2)
       \<or> (upper c = CHR ''Q'' \<and> func = call2 add_quadratic_bezier_curve_to \<and> n = 2)
       \<or> (upper c = CHR ''T'' \<and> func = call1 add_smooth_curve_to \<and> n = 1)
       \<or> (upper c = CHR ''A'' \<and> func = call2 add_quadratic_bezier_curve_to \<and> n = 2)
       \<or> (upper c = CHR ''Z'' \<and> func = call0 close_path \<and> n = 0)"
  using assms
  by (simp add: command_to_function_def get_command_to_function_map_def split: if_splits)

lemma arity_zero_iff:
  assumes "command_to_function c = Inr (func, n)"
  shows "(n = 0) = (upper c = CHR ''Z'')"
  using command_to_function_cases [OF assms] by auto

section \<open>The path compiler: termination\<close>

lemma handle_command_total:
  assumes "upper c \<noteq> CHR ''Z'' \<or> pts = []"
  shows "\<exists>r. handle_command c pts self = Some r"
  using assms
proof (induction "length pts" arbitrary: c pts self rule: less_induct)
  case less
  define pts' where
    "pts' = (if islower c then map (\<lambda>p. padd p (relative_point self)) pts else pts)"
  have len: "length pts' = length pts" by (simp add: pts'_def)
  show ?case
  proof (cases "command_to_function c")
    case (Inl e)
    then show ?thesis by (subst handle_command.simps) simp
  next
    case (Inr fn)
    obtain func n where fn: "fn = (func, n)" by (cases fn)
    show ?thesis
    proof (cases "func (take n pts') self")
      case (Inl e)
      then show ?thesis using Inr fn
        by (subst handle_command.simps) (simp add: pts'_def [symmetric])
    next
      case self': (Inr self')
      show ?thesis
      proof (cases "drop n pts' = []")
        case True
        then show ?thesis using Inr fn self'
          by (subst handle_command.simps) (simp add: pts'_def [symmetric] split: sum.splits)
      next
        case False
        then have ne: "pts \<noteq> []" using len by auto
        with less.prems have notZ: "upper c \<noteq> CHR ''Z''" by simp
        with Inr fn have n: "n \<noteq> 0" using arity_zero_iff by simp
        have short: "length (drop n pts') < length pts" using n ne len by simp
        define c' where "c' = (if upper c = CHR ''M'' then CHR ''l'' else c)"
        have c': "upper c' \<noteq> CHR ''Z''"
          using notZ by (simp add: c'_def upper_eq_Z)
        have rec: "\<exists>r. handle_command c' qs s = Some r" if "length qs = length (drop n pts')" for qs s
          using less.hyps [of qs c' s] that short c' by simp
        have r1: "\<exists>r. handle_command c' (drop n pts') self' = Some r"
          using rec by simp
        have r2: "\<exists>r. handle_command c' (map (\<lambda>q. psub q (relative_point self')) (drop n pts'))
                         (self'\<lparr>relative_point := p\<rparr>) = Some r" for p
          using rec by simp
        show ?thesis using Inr fn self' False r1 r2
          by (subst handle_command.simps)
             (simp add: pts'_def [symmetric] c'_def [symmetric] Let_def split: sum.splits)
      qed
    qed
  qed
qed

lemma islower_Z: "\<not> islower CHR ''Z''" "islower CHR ''z''"
  by (simp_all add: islower_def ascii_lowercase_def)

lemma command_to_function_Z:
  "upper c = CHR ''Z'' \<Longrightarrow> command_to_function c = Inr (call0 close_path, 0)"
  by (simp add: command_to_function_def get_command_to_function_map_def)

lemma handle_command_Z_never_returns:
  assumes "handle_command c pts self = Some y"
  shows "\<not> (upper c = CHR ''Z'' \<and> pts \<noteq> []
            \<and> (\<exists>s q. cursor (points self) = (Some s, Some q)))"
proof (rule handle_command.raw_induct
    [where P = "\<lambda>c pts self y. \<not> (upper c = CHR ''Z'' \<and> pts \<noteq> []
            \<and> (\<exists>s q. cursor (points self) = (Some s, Some q)))", OF _ assms])
  fix f :: "char \<Rightarrow> point list \<Rightarrow> vmobject \<Rightarrow> (error + vmobject) option"
  fix c pts self y
  assume IH: "\<And>c pts self y. f c pts self = Some y \<Longrightarrow>
          \<not> (upper c = CHR ''Z'' \<and> pts \<noteq> []
            \<and> (\<exists>s q. cursor (points self) = (Some s, Some q)))"
  assume body: "(let new_points' =
            (if islower c then map (\<lambda>p. padd p (relative_point self)) pts
             else pts)
      in case command_to_function c of
           Inl e \<Rightarrow> Some (Inl e)
         | Inr (func, n_points) \<Rightarrow>
             (case func (take n_points new_points') self of
                Inl e \<Rightarrow> Some (Inl e)
              | Inr self' \<Rightarrow>
                  (let leftover_points = drop n_points new_points' in
                   if length leftover_points > 0 then
                     (let command' = (if upper c = CHR ''M'' then CHR ''l'' else c) in
                      if islower command' then
                        (case get_last_point self' of
                           Inl e \<Rightarrow> Some (Inl e)
                         | Inr p \<Rightarrow>
                             f command'
                               (map (\<lambda>q. psub q (relative_point self')) leftover_points)
                               (self'\<lparr>relative_point := p\<rparr>))
                      else f command' leftover_points self')
                   else
                     (case get_last_point self' of
                        Inl e \<Rightarrow> Some (Inl e)
                      | Inr p \<Rightarrow> Some (Inr (self'\<lparr>relative_point := p\<rparr>)))))) = Some y"
  show "\<not> (upper c = CHR ''Z'' \<and> pts \<noteq> []
            \<and> (\<exists>s q. cursor (points self) = (Some s, Some q)))"
  proof
    assume h: "upper c = CHR ''Z'' \<and> pts \<noteq> []
            \<and> (\<exists>s q. cursor (points self) = (Some s, Some q))"
    then obtain s q where cur: "cursor (points self) = (Some s, Some q)" by blast
    from h have up: "upper c = CHR ''Z''" and ne: "pts \<noteq> []" by simp_all
    have notM: "upper c \<noteq> CHR ''M''" using up by simp
    define self' where "self' = self\<lparr>points := points self @ [ClosePath]\<rparr>"
    have cp: "call0 close_path [] self = Inr self'"
      using cur by (simp add: call0_def close_path_def draw_def self'_def)
    have cur': "cursor (points self') = (Some s, Some s)"
      using cur by (simp add: self'_def cursor_def)
    have glp: "get_last_point self' = Inr s"
      using cur' by (simp add: get_last_point_def)
    from up have "c = CHR ''Z'' \<or> c = CHR ''z''" by (simp add: upper_eq_Z)
    then show False
    proof
      assume "c = CHR ''Z''"
      then have low: "\<not> islower c" using islower_Z by simp
      from body have "f c pts self' = Some y"
        using ne cp notM low by (simp add: command_to_function_Z [OF up] Let_def)
      from IH [OF this] show False using up ne cur' by blast
    next
      assume "c = CHR ''z''"
      then have low: "islower c" using islower_Z by simp
      from body have "f c (map (\<lambda>q. psub q (relative_point self'))
                             (map (\<lambda>p. padd p (relative_point self)) pts))
                          (self'\<lparr>relative_point := s\<rparr>) = Some y"
        using ne cp notM glp low by (simp add: command_to_function_Z [OF up] Let_def)
      moreover have "map (\<lambda>q. psub q (relative_point self'))
                       (map (\<lambda>p. padd p (relative_point self)) pts) \<noteq> []"
        using ne by simp
      moreover have "cursor (points (self'\<lparr>relative_point := s\<rparr>)) = (Some s, Some s)"
        using cur' by simp
      ultimately show False using IH up by blast
    qed
  qed
qed

lemma string_to_points_Z:
  assumes "upper c = CHR ''Z''" and "string_to_points c cs self = Inr pts"
    and "case string_to_numbers cs of Inl e \<Rightarrow> True | Inr ns \<Rightarrow> ns = []"
  shows "pts = []"
  using assms by (auto simp: string_to_points_def split: sum.splits if_splits)

lemma handle_commands_total:
  assumes "\<forall>(c, cs) \<in> set cmds. upper c = CHR ''Z'' \<longrightarrow>
             (case string_to_numbers cs of Inl e \<Rightarrow> True | Inr ns \<Rightarrow> ns = [])"
  shows "\<exists>r. handle_commands cmds self = Some r"
  using assms
proof (induction cmds arbitrary: self)
  case Nil
  show ?case by simp
next
  case (Cons a cmds)
  obtain c cs where a: "a = (c, cs)" by (cases a)
  show ?case
  proof (cases "string_to_points c cs self")
    case (Inl e)
    then show ?thesis by (simp add: a)
  next
    case (Inr pts)
    have "upper c \<noteq> CHR ''Z'' \<or> pts = []"
      using string_to_points_Z [OF _ Inr] Cons.prems a by auto
    from handle_command_total [OF this, of self]
    obtain r where r: "handle_command c pts self = Some r" by blast
    show ?thesis
    proof (cases r)
      case (Inl e)
      then show ?thesis using Inr r by (simp add: a)
    next
      case self': (Inr self')
      from Cons.IH [of self'] Cons.prems
      obtain r' where "handle_commands cmds self' = Some r'" by auto
      then show ?thesis using Inr r self' by (simp add: a)
    qed
  qed
qed

lemma init_points_total:
  assumes "\<forall>(c, cs) \<in> set (get_commands_and_coord_strings (path_string self)).
             upper c = CHR ''Z'' \<longrightarrow>
             (case string_to_numbers cs of Inl e \<Rightarrow> True | Inr ns \<Rightarrow> ns = [])"
  shows "\<exists>r. init_points ext fs self = Some r"
proof -
  from handle_commands_total [OF assms, of "self\<lparr>relative_point := ORIGIN\<rparr>"]
  obtain r where "handle_commands (get_commands_and_coord_strings (path_string self))
                    (self\<lparr>relative_point := ORIGIN\<rparr>) = Some r"
    by blast
  then show ?thesis
    by (simp add: init_points_def Let_def split: sum.splits)
qed

lemma handle_command_Z_diverges:
  assumes "upper c = CHR ''Z''" "pts \<noteq> []" "cursor (points self) = (Some s, Some q)"
  shows "handle_command c pts self = None"
proof (cases "handle_command c pts self")
  case None
  then show ?thesis .
next
  case (Some y)
  from handle_command_Z_never_returns [OF Some] assms show ?thesis by blast
qed

text \<open>
  C10. \<^verbatim>\<open>handle_command\<close> returns on every command but a \<^verbatim>\<open>Z\<close> or \<^verbatim>\<open>z\<close> that is
  given points: \<^verbatim>\<open>Z\<close> is the one command of arity 0, so every other recursive call is on a
  list shorter by the arity. Hence \<^verbatim>\<open>init_points\<close> returns (a result or an exception)
  on every path string in which the text behind each \<^verbatim>\<open>Z\<close> and \<^verbatim>\<open>z\<close> holds no number.
  A \<^verbatim>\<open>Z\<close> or \<^verbatim>\<open>z\<close> that is given a point, in an open subpath, never returns: each call
  closes the path once more and calls itself on the same points. (Python ends such a run
  with a \<open>RecursionError\<close> when its stack is full; the model has no stack.)
\<close>

theorem C10_handle_command_termination:
  "(upper command \<noteq> CHR ''Z'' \<or> new_points = []
      \<longrightarrow> (\<exists>r. handle_command command new_points self = Some r))
   \<and> (command_to_function command = Inr (func, n_points)
      \<longrightarrow> (n_points = 0) = (upper command = CHR ''Z''))
   \<and> ((\<forall>(c, cs) \<in> set (get_commands_and_coord_strings (path_string self)).
          upper c = CHR ''Z'' \<longrightarrow>
          (case string_to_numbers cs of Inl e \<Rightarrow> True | Inr ns \<Rightarrow> ns = []))
      \<longrightarrow> (\<exists>r. init_points ext fs self = Some r))
   \<and> (upper command = CHR ''Z'' \<and> new_points \<noteq> []
        \<and> cursor (points self) = (Some s, Some q)
      \<longrightarrow> handle_command command new_points self = None)"
proof (intro conjI impI)
  assume "upper command \<noteq> CHR ''Z'' \<or> new_points = []"
  then show "\<exists>r. handle_command command new_points self = Some r"
    by (rule handle_command_total)
next
  assume "command_to_function command = Inr (func, n_points)"
  then show "(n_points = 0) = (upper command = CHR ''Z'')"
    by (rule arity_zero_iff)
next
  assume "\<forall>(c, cs) \<in> set (get_commands_and_coord_strings (path_string self)).
          upper c = CHR ''Z'' \<longrightarrow>
          (case string_to_numbers cs of Inl e \<Rightarrow> True | Inr ns \<Rightarrow> ns = [])"
  then show "\<exists>r. init_points ext fs self = Some r"
    by (rule init_points_total)
next
  assume "upper command = CHR ''Z'' \<and> new_points \<noteq> []
        \<and> cursor (points self) = (Some s, Some q)"
  then show "handle_command command new_points self = None"
    using handle_command_Z_diverges by blast
qed

text \<open>
  The path \<^verbatim>\<open>M0,0 L10,0 L10,10 Z\<close> is compiled; on \<^verbatim>\<open>M0,0 Z 5,5\<close> \<^verbatim>\<open>init_points\<close> never
  returns.
\<close>

theorem C10_handle_command_termination_witness:
  "(\<exists>r. init_points example_externals empty_disk (new_vmobject ''M0,0 L10,0 L10,10 Z'') = Some r)
   \<and> handle_command CHR ''Z'' [(5, 5, 0)]
        ((new_vmobject ''M0,0 Z 5,5'')\<lparr>points := [StartNewPath (0, 0, 0)]\<rparr>) = None
   \<and> init_points example_externals empty_disk (new_vmobject ''M0,0 Z 5,5'') = None"
proof -
  define s1 where "s1 = (new_vmobject ''M0,0 Z 5,5'')\<lparr>points := [StartNewPath (0, 0, 0)]\<rparr>"
  have 1: "\<exists>r. init_points example_externals empty_disk
                  (new_vmobject ''M0,0 L10,0 L10,10 Z'') = Some r"
  proof -
    have "\<forall>(c, cs) \<in> set (get_commands_and_coord_strings
                              (path_string (new_vmobject ''M0,0 L10,0 L10,10 Z''))).
            upper c = CHR ''Z'' \<longrightarrow>
            (case string_to_numbers cs of Inl e \<Rightarrow> True | Inr ns \<Rightarrow> ns = [])"
      by code_simp
    with C10_handle_command_termination
      [where self = "new_vmobject ''M0,0 L10,0 L10,10 Z''"
         and ext = example_externals and fs = empty_disk]
    show ?thesis by blast
  qed
  have h: "upper CHR ''Z'' = CHR ''Z'' \<and> [(5, 5, 0) :: point] \<noteq> []
           \<and> cursor (points s1) = (Some (0, 0, 0), Some (0, 0, 0))"
    unfolding s1_def by code_simp
  have 2: "handle_command CHR ''Z'' [(5, 5, 0)] s1 = None"
    using C10_handle_command_termination
      [where command = "CHR ''Z''" and new_points = "[(5, 5, 0)]" and self = s1
         and s = "(0, 0, 0)" and q = "(0, 0, 0)"] h
    by blast
  have cmds: "get_commands_and_coord_strings ''M0,0 Z 5,5''
                = [(CHR ''M'', ''0,0 ''), (CHR ''Z'', '' 5,5'')]"
    by code_simp
  have m: "string_to_points CHR ''M'' ''0,0 ''
             ((new_vmobject ''M0,0 Z 5,5'')\<lparr>relative_point := ORIGIN\<rparr>) = Inr [(0, 0, 0)]"
    by code_simp
  have hm: "handle_command CHR ''M'' [(0, 0, 0)]
              ((new_vmobject ''M0,0 Z 5,5'')\<lparr>relative_point := ORIGIN\<rparr>) = Some (Inr s1)"
    unfolding s1_def by code_simp
  have z: "string_to_points CHR ''Z'' '' 5,5'' s1 = Inr [(5, 5, 0)]"
    unfolding s1_def by code_simp
  have miss: "\<not> os_path_exists empty_disk p" for p
    by (simp add: os_path_exists_def empty_disk_def)
  have ps: "path_string (new_vmobject ''M0,0 Z 5,5'') = ''M0,0 Z 5,5''"
    by (simp add: new_vmobject_def)
  have 3: "init_points example_externals empty_disk (new_vmobject ''M0,0 Z 5,5'') = None"
    by (simp add: init_points_def miss ps cmds m hm z 2)
  from 1 2 3 show ?thesis unfolding s1_def by blast
qed

section \<open>The path compiler: horizontal and vertical lines\<close>

lemma letters_HV:
  "upper CHR ''H'' = CHR ''H''" "upper CHR ''h'' = CHR ''H''"
  "upper CHR ''V'' = CHR ''V''" "upper CHR ''v'' = CHR ''V''"
  "isupper CHR ''H'' = True" "isupper CHR ''h'' = False"
  "isupper CHR ''V'' = True" "isupper CHR ''v'' = False"
  "islower CHR ''H'' = False" "islower CHR ''h'' = True"
  "islower CHR ''V'' = False" "islower CHR ''v'' = True"
  by code_simp+

lemma cursor_snoc: "cursor (cs @ [d]) = advance (cursor cs) d"
  by (simp add: cursor_def)

lemma handle_command_one_line:
  assumes ctf: "command_to_function c = Inr (call1 add_line_to, 1)"
    and cur: "get_last_point self = Inr q0"
  shows "handle_command c [p] self =
           Some (Inr (self\<lparr>points := points self
                               @ [AddLineTo (if islower c then padd p (relative_point self) else p)],
                          relative_point := (if islower c then padd p (relative_point self) else p)\<rparr>))"
proof -
  from cur have "snd (cursor (points self)) = Some q0"
    by (simp add: get_last_point_def split: option.splits)
  then obtain s0 where c0: "cursor (points self) = (s0, Some q0)"
    by (cases "cursor (points self)") simp
  show ?thesis
    by (subst handle_command.simps)
       (simp add: ctf call1_def add_line_to_def draw_def c0 get_last_point_def cursor_snoc Let_def)
qed

lemma command_to_function_HV:
  "upper c = CHR ''H'' \<or> upper c = CHR ''V''
     \<Longrightarrow> command_to_function c = Inr (call1 add_line_to, 1)"
  by (auto simp: command_to_function_def get_command_to_function_map_def)

text \<open>
  C1, as the spec states it, fails: the relative \<^verbatim>\<open>m5,5 h20\<close> ends at (25, 5), which the
  final flip of \<^verbatim>\<open>init_points\<close> turns into (25, -5); nowhere is the endpoint (25, 0).
\<close>

theorem C1_counterexample:
  "handle_commands (get_commands_and_coord_strings ''m5,5 h20'')
       ((new_vmobject ''m5,5 h20'')\<lparr>relative_point := ORIGIN\<rparr>)
     = Some (Inr ((new_vmobject ''m5,5 h20'')
                    \<lparr>relative_point := (25, 5, 0),
                      points := [StartNewPath (5, 5, 0), AddLineTo (25, 5, 0)]\<rparr>))
   \<and> compiled_points ''m5,5 h20''
     = Some (Inr [StartNewPath (5, - 5, 0), AddLineTo (25, - 5, 0)])"
  by code_simp

text \<open>
  C1, amended. Let the current point be \<open>(cx, cy, cz)\<close>, and the relative point with it,
  as it is after every command \<^verbatim>\<open>init_points\<close> has handled. An \<^verbatim>\<open>H\<close> with one number
  \<open>v\<close> draws a line to \<open>(v, cy, 0)\<close>: the omitted axis is copied from the current point.
  An \<^verbatim>\<open>h\<close> is turned into the delta \<open>(v, 0, 0)\<close>, to which \<^verbatim>\<open>handle_command\<close> adds the
  current point, so the line goes to \<open>(cx + v, cy, cz)\<close>: the omitted axis is carried
  forward from the current point as well. \<^verbatim>\<open>V\<close> and \<^verbatim>\<open>v\<close> do the same on the other
  axis. So \<^verbatim>\<open>M5,5 H20\<close> ends at (20, 5) and \<^verbatim>\<open>m5,5 h20\<close> at (25, 5), before the flip
  of the Y axis.
\<close>

theorem C1_single_axis_endpoints:
  assumes nums: "string_to_numbers coord_string = Inr [Finite v]"
    and cur: "get_last_point self = Inr (cx, cy, cz)"
    and rel: "relative_point self = (cx, cy, cz)"
  shows "handle_commands [(CHR ''H'', coord_string)] self
           = Some (Inr (self\<lparr>points := points self @ [AddLineTo (v, cy, 0)],
                          relative_point := (v, cy, 0)\<rparr>))
       \<and> handle_commands [(CHR ''h'', coord_string)] self
           = Some (Inr (self\<lparr>points := points self @ [AddLineTo (cx + v, cy, cz)],
                          relative_point := (cx + v, cy, cz)\<rparr>))
       \<and> handle_commands [(CHR ''V'', coord_string)] self
           = Some (Inr (self\<lparr>points := points self @ [AddLineTo (cx, v, 0)],
                          relative_point := (cx, v, 0)\<rparr>))
       \<and> handle_commands [(CHR ''v'', coord_string)] self
           = Some (Inr (self\<lparr>points := points self @ [AddLineTo (cx, cy + v, cz)],
                          relative_point := (cx, cy + v, cz)\<rparr>))"
proof -
  note L = letters_HV
  have pH: "string_to_points CHR ''H'' coord_string self = Inr [(v, cy, 0)]"
    and ph: "string_to_points CHR ''h'' coord_string self = Inr [(v, 0, 0)]"
    and pV: "string_to_points CHR ''V'' coord_string self = Inr [(cx, v, 0)]"
    and pv: "string_to_points CHR ''v'' coord_string self = Inr [(0, v, 0)]"
    by (simp_all add: string_to_points_def nums finite_value_def rel L)
  have cH: "command_to_function CHR ''H'' = Inr (call1 add_line_to, 1)"
    and ch: "command_to_function CHR ''h'' = Inr (call1 add_line_to, 1)"
    and cV: "command_to_function CHR ''V'' = Inr (call1 add_line_to, 1)"
    and cv: "command_to_function CHR ''v'' = Inr (call1 add_line_to, 1)"
    by (simp_all add: command_to_function_HV L)
  have 1: "handle_commands [(CHR ''H'', coord_string)] self
           = Some (Inr (self\<lparr>points := points self @ [AddLineTo (v, cy, 0)],
                          relative_point := (v, cy, 0)\<rparr>))"
    by (simp add: pH handle_command_one_line [OF cH cur] L)
  have 2: "handle_commands [(CHR ''h'', coord_string)] self
           = Some (Inr (self\<lparr>points := points self @ [AddLineTo (cx + v, cy, cz)],
                          relative_point := (cx + v, cy, cz)\<rparr>))"
    by (simp add: ph handle_command_one_line [OF ch cur] rel add.commute L)
  have 3: "handle_commands [(CHR ''V'', coord_string)] self
           = Some (Inr (self\<lparr>points := points self @ [AddLineTo (cx, v, 0)],
                          relative_point := (cx, v, 0)\<rparr>))"
    by (simp add: pV handle_command_one_line [OF cV cur] L)
  have 4: "handle_commands [(CHR ''v'', coord_string)] self
           = Some (Inr (self\<lparr>points := points self @ [AddLineTo (cx, cy + v, cz)],
                          relative_point := (cx, cy + v, cz)\<rparr>))"
    by (simp add: pv handle_command_one_line [OF cv cur] rel add.commute L)
  from 1 2 3 4 show ?thesis by blast
qed

text \<open>After a move to (5, 5): \<^verbatim>\<open>H20\<close> goes to (20, 5), \<^verbatim>\<open>h20\<close> to (25, 5).\<close>

theorem C1_single_axis_endpoints_witness:
  "handle_commands [(CHR ''H'', ''20'')]
       ((new_vmobject ''M5,5 H20'')\<lparr>points := [StartNewPath (5, 5, 0)],
                                     relative_point := (5, 5, 0)\<rparr>)
     = Some (Inr ((new_vmobject ''M5,5 H20'')
                    \<lparr>points := [StartNewPath (5, 5, 0), AddLineTo (20, 5, 0)],
                      relative_point := (20, 5, 0)\<rparr>))
   \<and> handle_commands [(CHR ''h'', ''20'')]
       ((new_vmobject ''M5,5 H20'')\<lparr>points := [StartNewPath (5, 5, 0)],
                                     relative_point := (5, 5, 0)\<rparr>)
     = Some (Inr ((new_vmobject ''M5,5 H20'')
                    \<lparr>points := [StartNewPath (5, 5, 0), AddLineTo (25, 5, 0)],
                      relative_point := (25, 5, 0)\<rparr>))
   \<and> compiled_points ''M5,5 H20''
     = Some (Inr [StartNewPath (5, - 5, 0), AddLineTo (20, - 5, 0)])"
proof -
  define s5 where "s5 = (new_vmobject ''M5,5 H20'')\<lparr>points := [StartNewPath (5, 5, 0)],
                                     relative_point := (5, 5, 0)\<rparr>"
  have n: "string_to_numbers ''20'' = Inr [Finite 20]" by code_simp
  have c: "get_last_point s5 = Inr (5, 5, 0)" unfolding s5_def by code_simp
  have r: "relative_point s5 = (5, 5, 0)" by (simp add: s5_def)
  have e: "compiled_points ''M5,5 H20''
             = Some (Inr [StartNewPath (5, - 5, 0), AddLineTo (20, - 5, 0)])"
    by code_simp
  have eqH: "s5\<lparr>points := points s5 @ [AddLineTo (20, 5, 0)], relative_point := (20, 5, 0)\<rparr>
               = (new_vmobject ''M5,5 H20'')
                    \<lparr>points := [StartNewPath (5, 5, 0), AddLineTo (20, 5, 0)],
                      relative_point := (20, 5, 0)\<rparr>"
    by (simp add: s5_def)
  have eqh: "s5\<lparr>points := points s5 @ [AddLineTo (5 + 20, 5, 0)],
                 relative_point := (5 + 20, 5, 0)\<rparr>
               = (new_vmobject ''M5,5 H20'')
                    \<lparr>points := [StartNewPath (5, 5, 0), AddLineTo (25, 5, 0)],
                      relative_point := (25, 5, 0)\<rparr>"
    by (simp add: s5_def)
  note T = C1_single_axis_endpoints [OF n c r]
  have 1: "handle_commands [(CHR ''H'', ''20'')] s5
             = Some (Inr ((new_vmobject ''M5,5 H20'')
                    \<lparr>points := [StartNewPath (5, 5, 0), AddLineTo (20, 5, 0)],
                      relative_point := (20, 5, 0)\<rparr>))"
    using T [THEN conjunct1] by (simp only: eqH)
  have 2: "handle_commands [(CHR ''h'', ''20'')] s5
             = Some (Inr ((new_vmobject ''M5,5 H20'')
                    \<lparr>points := [StartNewPath (5, 5, 0), AddLineTo (25, 5, 0)],
                      relative_point := (25, 5, 0)\<rparr>))"
    using T [THEN conjunct2, THEN conjunct1] by (simp only: eqh)
  show ?thesis using 1 2 e unfolding s5_def by blast
qed

end
